theory Spec2Isabelle
  imports Main "HOL-Library.AList" "HOL-Library.Sublist"
begin

section \<open>Exceptions, Python values and the effects of a call\<close>

text \<open>
  The exceptions a call can end with. \<open>PermitContextError\<close> and \<open>PermitApiError\<close> are the
  two the docstrings of the API classes name, \<open>KeyError\<close> is raised by \<open>UsersApi.sync\<close>;
  \<open>LibraryError\<close> stands for whatever a library outside the repository raises (httpx,
  the JSON decoder, pydantic).
\<close>

datatype error = PermitContextError | PermitApiError | KeyError string | LibraryError string

text \<open>
  A Python dict keeps its entries in insertion order: an association list. A value stored
  in a dict is \<open>None\<close> or some other object; the objects the code never looks into are of
  an arbitrary type \<open>'a\<close>.
\<close>

type_synonym 'x pydict = "(string \<times> 'x) list"

datatype 'a pyval = PyNone | PyVal 'a

text \<open>
  A call runs on a state, issues HTTP requests and ends with a value or an exception:
  it returns the state after the call, the requests it has issued, in order, and the
  outcome.
\<close>

type_synonym ('s, 'q, 'a) prog = "'s \<Rightarrow> 's \<times> 'q list \<times> (error + 'a)"

definition returns :: "'a \<Rightarrow> ('s, 'q, 'a) prog" where
  "returns a = (\<lambda>s. (s, [], Inr a))"

definition raise :: "error \<Rightarrow> ('s, 'q, 'a) prog" where
  "raise e = (\<lambda>s. (s, [], Inl e))"

definition await :: "('s, 'q, 'a) prog \<Rightarrow> ('a \<Rightarrow> ('s, 'q, 'b) prog) \<Rightarrow> ('s, 'q, 'b) prog" where
  "await m f = (\<lambda>s.
     case m s of
       (s1, sent1, Inl e) \<Rightarrow> (s1, sent1, Inl e)
     | (s1, sent1, Inr a) \<Rightarrow> (case f a s1 of (s2, sent2, r) \<Rightarrow> (s2, sent1 @ sent2, r)))"

text \<open>
  The one place where a request leaves the process: the request is logged and the remote
  side answers with a response or the transport raises.
\<close>

definition http_send :: "('q \<Rightarrow> error + 'r) \<Rightarrow> 'q \<Rightarrow> ('s, 'q, 'r) prog" where
  "http_send remote q = (\<lambda>s. (s, [q], remote q))"

definition from_result :: "error + 'a \<Rightarrow> ('s, 'q, 'a) prog" where
  "from_result r = (case r of Inl e \<Rightarrow> raise e | Inr a \<Rightarrow> returns a)"

definition state_after :: "'s \<times> 'q list \<times> 'r \<Rightarrow> 's" where
  "state_after out = fst out"

definition sent :: "'s \<times> 'q list \<times> 'r \<Rightarrow> 'q list" where
  "sent out = fst (snd out)"

definition result :: "'s \<times> 'q list \<times> 'r \<Rightarrow> 'r" where
  "result out = snd (snd out)"

section \<open>permit/openapi/api: the generated endpoint functions\<close>

text \<open>
  \<open>Client\<close> and \<open>AuthenticatedClient\<close> (permit/openapi/client.py) are not among the
  sources; the endpoint functions read \<open>base_url\<close> and \<open>verify_ssl\<close> and call
  \<open>get_headers\<close>, \<open>get_cookies\<close> and \<open>get_timeout\<close>, so a client is the record of what
  these five give. The timeout is a float the code only passes on: a value of type \<open>'t\<close>.
\<close>

record 't Client =
  base_url :: string
  verify_ssl :: bool
  get_headers :: "string pydict"
  get_cookies :: "string pydict"
  get_timeout :: 't

text \<open>
  The dict \<open>_get_kwargs\<close> returns, the keyword arguments of the request. \<open>kw_json\<close>
  is \<open>None\<close> where the dict has no \<open>"json"\<close> entry. The caller adds \<open>verify\<close>: what
  goes to httpx is the pair of \<open>verify\<close> and these keyword arguments.
\<close>

record ('t, 'b) httpx_kwargs =
  kw_method :: string
  kw_url :: string
  kw_headers :: "string pydict"
  kw_cookies :: "string pydict"
  kw_timeout :: 't
  kw_json :: "'b option"

text \<open>
  \<open>httpx.Response\<close>, as far as the code reads it, and the SDK's own \<open>Response\<close>
  (permit/openapi/types.py), which carries the same three fields and the parsed model.
\<close>

record httpx_response =
  status_code :: int
  content :: string
  headers :: "string pydict"

record 'p Response = httpx_response +
  parsed :: 'p

text \<open>
  The return type \<open>Optional[Union[HTTPValidationError, M]]\<close> of \<open>_parse_response\<close>:
  the success model, the validation error model, or (as \<open>None\<close> of the option) nothing.
\<close>

datatype ('m, 'e) parsed_model = Model_200 'm | Model_422 'e

text \<open>
  What the unmarshaller calls outside the repository's sources: \<open>response.json()\<close> of
  httpx, and \<open>parse_obj\<close> of the success model (\<open>UserData\<close>, \<open>ResourceRead\<close>) and of
  \<open>HTTPValidationError\<close>. Each may raise.
\<close>

record ('j, 'm, 'e) codec =
  response_json :: "httpx_response \<Rightarrow> error + 'j"
  parse_obj_200 :: "'j \<Rightarrow> error + 'm"
  parse_obj_422 :: "'j \<Rightarrow> error + 'e"

definition try_bind :: "error + 'a \<Rightarrow> ('a \<Rightarrow> error + 'b) \<Rightarrow> error + 'b" where
  "try_bind r f = (case r of Inl e \<Rightarrow> Inl e | Inr a \<Rightarrow> f a)"

subsection \<open>opal\_data/get\_data\_for\_user.py\<close>

definition get_data_for_user_get_kwargs ::
  "string \<Rightarrow> string \<Rightarrow> string \<Rightarrow> string \<Rightarrow> 't Client \<Rightarrow> ('t, 'b) httpx_kwargs" where
  "get_data_for_user_get_kwargs org_id proj_id env_id user_id client =
     (let url = base_url client @ ''/v2/internal/opal_data/'' @ org_id @ ''/'' @ proj_id
                  @ ''/'' @ env_id @ ''/users/'' @ user_id;
          headers = get_headers client;
          cookies = get_cookies client
      in \<lparr> kw_method = ''get'', kw_url = url,
           kw_headers = headers, kw_cookies = cookies, kw_timeout = get_timeout client,
           kw_json = None \<rparr>)"

definition get_data_for_user_parse_response ::
  "('j, 'm, 'e) codec \<Rightarrow> httpx_response \<Rightarrow> error + ('m, 'e) parsed_model option" where
  "get_data_for_user_parse_response cdc response =
     (if status_code response = 200 then
        try_bind (response_json cdc response) (\<lambda>j.
        try_bind (parse_obj_200 cdc j) (\<lambda>response_200. Inr (Some (Model_200 response_200))))
      else if status_code response = 422 then
        try_bind (response_json cdc response) (\<lambda>j.
        try_bind (parse_obj_422 cdc j) (\<lambda>response_422. Inr (Some (Model_422 response_422))))
      else Inr None)"

definition get_data_for_user_build_response ::
  "('j, 'm, 'e) codec \<Rightarrow> httpx_response \<Rightarrow> error + ('m, 'e) parsed_model option Response" where
  "get_data_for_user_build_response cdc response =
     try_bind (get_data_for_user_parse_response cdc response) (\<lambda>p.
       Inr \<lparr> status_code = status_code response, content = content response,
             headers = headers response, parsed = p \<rparr>)"

definition get_data_for_user_sync_detailed ::
  "(bool \<times> ('t, 'b) httpx_kwargs \<Rightarrow> error + httpx_response) \<Rightarrow> ('j, 'm, 'e) codec \<Rightarrow>
   string \<Rightarrow> string \<Rightarrow> string \<Rightarrow> string \<Rightarrow> 't Client \<Rightarrow>
   ('s, bool \<times> ('t, 'b) httpx_kwargs, ('m, 'e) parsed_model option Response) prog" where
  "get_data_for_user_sync_detailed httpx_request cdc org_id proj_id env_id user_id client =
     (let kwargs = get_data_for_user_get_kwargs org_id proj_id env_id user_id client
      in await (http_send httpx_request (verify_ssl client, kwargs)) (\<lambda>response.
           from_result (get_data_for_user_build_response cdc response)))"

definition get_data_for_user_sync ::
  "(bool \<times> ('t, 'b) httpx_kwargs \<Rightarrow> error + httpx_response) \<Rightarrow> ('j, 'm, 'e) codec \<Rightarrow>
   string \<Rightarrow> string \<Rightarrow> string \<Rightarrow> string \<Rightarrow> 't Client \<Rightarrow>
   ('s, bool \<times> ('t, 'b) httpx_kwargs, ('m, 'e) parsed_model option) prog" where
  "get_data_for_user_sync httpx_request cdc org_id proj_id env_id user_id client =
     await (get_data_for_user_sync_detailed httpx_request cdc org_id proj_id env_id user_id client)
       (\<lambda>r. returns (parsed r))"

text \<open>
  \<open>asyncio_detailed\<close> sends the same keyword arguments through an \<open>httpx.AsyncClient\<close>
  opened for this one request and awaits the response.
\<close>

definition get_data_for_user_asyncio_detailed ::
  "(bool \<times> ('t, 'b) httpx_kwargs \<Rightarrow> error + httpx_response) \<Rightarrow> ('j, 'm, 'e) codec \<Rightarrow>
   string \<Rightarrow> string \<Rightarrow> string \<Rightarrow> string \<Rightarrow> 't Client \<Rightarrow>
   ('s, bool \<times> ('t, 'b) httpx_kwargs, ('m, 'e) parsed_model option Response) prog" where
  "get_data_for_user_asyncio_detailed async_client_request cdc org_id proj_id env_id user_id client =
     (let kwargs = get_data_for_user_get_kwargs org_id proj_id env_id user_id client
      in await (http_send async_client_request (verify_ssl client, kwargs)) (\<lambda>response.
           from_result (get_data_for_user_build_response cdc response)))"

definition get_data_for_user_asyncio ::
  "(bool \<times> ('t, 'b) httpx_kwargs \<Rightarrow> error + httpx_response) \<Rightarrow> ('j, 'm, 'e) codec \<Rightarrow>
   string \<Rightarrow> string \<Rightarrow> string \<Rightarrow> string \<Rightarrow> 't Client \<Rightarrow>
   ('s, bool \<times> ('t, 'b) httpx_kwargs, ('m, 'e) parsed_model option) prog" where
  "get_data_for_user_asyncio async_client_request cdc org_id proj_id env_id user_id client =
     await (get_data_for_user_asyncio_detailed async_client_request cdc org_id proj_id env_id
              user_id client)
       (\<lambda>r. returns (parsed r))"

subsection \<open>resources/create\_resource.py\<close>

text \<open>
  A pydantic model the code does not look into (\<open>ResourceCreate\<close> here; \<open>TenantCreate\<close>,
  \<open>UserUpdate\<close>, \<open>EnvironmentCreate\<close> and the like below) is known by the dict that its
  \<open>dict()\<close> method returns. \<open>permit_session\<close> is \<open>None\<close> for \<open>UNSET\<close>.
\<close>

record 'a BaseModel =
  dict :: "'a pyval pydict"

definition create_resource_get_kwargs ::
  "string \<Rightarrow> string \<Rightarrow> 't Client \<Rightarrow> 'a BaseModel \<Rightarrow> string option \<Rightarrow>
   ('t, 'a pyval pydict) httpx_kwargs" where
  "create_resource_get_kwargs proj_id env_id client json_body permit_session =
     (let url = base_url client @ ''/v2/schema/'' @ proj_id @ ''/'' @ env_id @ ''/resources'';
          headers = get_headers client;
          cookies = get_cookies client;
          cookies = (case permit_session of
                       Some v \<Rightarrow> AList.update ''permit_session'' v cookies
                     | None \<Rightarrow> cookies);
          json_json_body = dict json_body
      in \<lparr> kw_method = ''post'', kw_url = url, kw_headers = headers, kw_cookies = cookies,
           kw_timeout = get_timeout client, kw_json = Some json_json_body \<rparr>)"

definition create_resource_parse_response ::
  "('j, 'm, 'e) codec \<Rightarrow> httpx_response \<Rightarrow> error + ('m, 'e) parsed_model option" where
  "create_resource_parse_response cdc response =
     (if status_code response = 200 then
        try_bind (response_json cdc response) (\<lambda>j.
        try_bind (parse_obj_200 cdc j) (\<lambda>response_200. Inr (Some (Model_200 response_200))))
      else if status_code response = 422 then
        try_bind (response_json cdc response) (\<lambda>j.
        try_bind (parse_obj_422 cdc j) (\<lambda>response_422. Inr (Some (Model_422 response_422))))
      else Inr None)"

definition create_resource_build_response ::
  "('j, 'm, 'e) codec \<Rightarrow> httpx_response \<Rightarrow> error + ('m, 'e) parsed_model option Response" where
  "create_resource_build_response cdc response =
     try_bind (create_resource_parse_response cdc response) (\<lambda>p.
       Inr \<lparr> status_code = status_code response, content = content response,
             headers = headers response, parsed = p \<rparr>)"

definition create_resource_sync_detailed ::
  "(bool \<times> ('t, 'a pyval pydict) httpx_kwargs \<Rightarrow> error + httpx_response) \<Rightarrow>
   ('j, 'm, 'e) codec \<Rightarrow> string \<Rightarrow> string \<Rightarrow> 't Client \<Rightarrow> 'a BaseModel \<Rightarrow> string option \<Rightarrow>
   ('s, bool \<times> ('t, 'a pyval pydict) httpx_kwargs, ('m, 'e) parsed_model option Response) prog"
  where
  "create_resource_sync_detailed httpx_request cdc proj_id env_id client json_body permit_session =
     (let kwargs = create_resource_get_kwargs proj_id env_id client json_body permit_session
      in await (http_send httpx_request (verify_ssl client, kwargs)) (\<lambda>response.
           from_result (create_resource_build_response cdc response)))"

definition create_resource_sync ::
  "(bool \<times> ('t, 'a pyval pydict) httpx_kwargs \<Rightarrow> error + httpx_response) \<Rightarrow>
   ('j, 'm, 'e) codec \<Rightarrow> string \<Rightarrow> string \<Rightarrow> 't Client \<Rightarrow> 'a BaseModel \<Rightarrow> string option \<Rightarrow>
   ('s, bool \<times> ('t, 'a pyval pydict) httpx_kwargs, ('m, 'e) parsed_model option) prog" where
  "create_resource_sync httpx_request cdc proj_id env_id client json_body permit_session =
     await (create_resource_sync_detailed httpx_request cdc proj_id env_id client json_body
              permit_session)
       (\<lambda>r. returns (parsed r))"

definition create_resource_asyncio_detailed ::
  "(bool \<times> ('t, 'a pyval pydict) httpx_kwargs \<Rightarrow> error + httpx_response) \<Rightarrow>
   ('j, 'm, 'e) codec \<Rightarrow> string \<Rightarrow> string \<Rightarrow> 't Client \<Rightarrow> 'a BaseModel \<Rightarrow> string option \<Rightarrow>
   ('s, bool \<times> ('t, 'a pyval pydict) httpx_kwargs, ('m, 'e) parsed_model option Response) prog"
  where
  "create_resource_asyncio_detailed async_client_request cdc proj_id env_id client json_body
     permit_session =
     (let kwargs = create_resource_get_kwargs proj_id env_id client json_body permit_session
      in await (http_send async_client_request (verify_ssl client, kwargs)) (\<lambda>response.
           from_result (create_resource_build_response cdc response)))"

definition create_resource_asyncio ::
  "(bool \<times> ('t, 'a pyval pydict) httpx_kwargs \<Rightarrow> error + httpx_response) \<Rightarrow>
   ('j, 'm, 'e) codec \<Rightarrow> string \<Rightarrow> string \<Rightarrow> 't Client \<Rightarrow> 'a BaseModel \<Rightarrow> string option \<Rightarrow>
   ('s, bool \<times> ('t, 'a pyval pydict) httpx_kwargs, ('m, 'e) parsed_model option) prog" where
  "create_resource_asyncio async_client_request cdc proj_id env_id client json_body
     permit_session =
     await (create_resource_asyncio_detailed async_client_request cdc proj_id env_id client
              json_body permit_session)
       (\<lambda>r. returns (parsed r))"

section \<open>permit/config.py and the API context\<close>

record LoggerConfig =
  level :: string
  label :: string
  log_as_json :: bool

record MultiTenancyConfig =
  default_tenant :: string
  use_default_tenant_if_empty :: bool

text \<open>
  Modelled from the spec: permit/api/context.py (\<open>ApiKeyLevel\<close>, the API context) is not
  among the sources. The enum has the two members the API classes name. The context holds
  the "configured API-key level" that the guard compares, and \<open>project\<close> and
  \<open>environment\<close>, which \<open>TenantsApi\<close> and \<open>UsersApi\<close> format into their paths: each is
  the text \<open>str.format\<close> renders for it.
\<close>

datatype ApiKeyLevel = PROJECT_LEVEL_API_KEY | ENVIRONMENT_LEVEL_API_KEY

record ApiContext =
  api_key_level :: ApiKeyLevel
  project :: string
  environment :: string

text \<open>
  \<open>PermitConfig\<close> with the fields config.py declares, and \<open>api_context\<close>, which
  config.py does not declare but every API class reads as \<open>self.config.api_context\<close>.
\<close>

record PermitConfig =
  token :: string
  pdp :: string
  api_url :: string
  log :: LoggerConfig
  multi_tenancy :: MultiTenancyConfig
  api_context :: ApiContext

section \<open>permit/api: what the API classes build on\<close>

text \<open>
  The state a call of an API class runs on: the configuration object, which the API
  objects share and read at each call, and the dict objects of the caller, by address
  (\<open>UsersApi.sync\<close> changes the dict it is given).
\<close>

record 'a sdk_state =
  permit_config :: PermitConfig
  dict_at :: "nat \<Rightarrow> 'a pyval pydict"

text \<open>
  The models of permit/api/models.py the code reads a field of: \<open>user.key\<close> of a
  \<open>UserCreate\<close>, \<open>assignment.user\<close> of a \<open>RoleAssignmentCreate\<close> and of a
  \<open>RoleAssignmentRemove\<close> (the same shape, as far as the code reads them).
\<close>

record 'a UserCreate = "'a BaseModel" +
  key :: string

record 'a RoleAssignmentCreate = "'a BaseModel" +
  assignment_user :: string

type_synonym 'a RoleAssignmentRemove = "'a RoleAssignmentCreate"

datatype http_method = GET | POST | PUT | PATCH | DELETE

datatype param = PInt int | PStr string

text \<open>What is passed as \<open>json=\<close>: a model object, or a dict.\<close>

datatype 'a json_body =
    JsonModel "'a BaseModel"
  | JsonUserCreate "'a UserCreate"
  | JsonDict "'a pyval pydict"

text \<open>What is passed as \<open>model=\<close>: the type the response is unmarshalled into.\<close>

datatype model =
    PaginatedResultUserRead | UserRead | RoleAssignmentRead | TenantRead
  | EnvironmentRead | EnvironmentStats | APIKeyRead | List_of model

record 'a api_request =
  rq_method :: http_method
  rq_url :: string
  rq_params :: "param pydict option"
  rq_json :: "'a json_body option"

text \<open>
  What a call meets outside the sources: the remote service answering a request (or the
  transport raising), the response handling of permit/api/base.py (raising
  \<open>PermitApiError\<close> on an error status, unmarshalling the JSON into the model otherwise),
  Python's rendering of a dict value inside an f-string, and pydantic's validation of a dict
  as a \<open>UserCreate\<close> (the model it makes of the dict, or \<open>None\<close> when the dict does not
  validate as one).
\<close>

record 'a runtime =
  remote :: "'a api_request \<Rightarrow> error + httpx_response"
  handle_response :: "model option \<Rightarrow> httpx_response \<Rightarrow> error + 'a"
  format_value :: "'a \<Rightarrow> string"
  validate_user :: "'a pyval pydict \<Rightarrow> 'a UserCreate option"

type_synonym 'a api_prog = "('a sdk_state, 'a api_request, 'a) prog"

text \<open>
  Modelled from the spec: permit/api/base.py, with \<open>ensure_context\<close>, is not among the
  sources. The spec: "the \<open>ensure_context\<close> scope guard comparing a configured API-key level
  against a required level enum, short-circuiting with a context error on mismatch".
\<close>

definition ensure_context ::
  "ApiKeyLevel \<Rightarrow> ('a sdk_state, 'q, 'r) prog \<Rightarrow> ('a sdk_state, 'q, 'r) prog" where
  "ensure_context call_level func = (\<lambda>s.
     if api_key_level (api_context (permit_config s)) \<noteq> call_level
     then raise PermitContextError s
     else func s)"

text \<open>
  \<open>validate_arguments\<close> is pydantic's decorator, not code of the repository. An argument
  that is of its declared type already (a string, an integer, a model object) is handed on
  to the function; all arguments of the methods below are, except the \<open>UserCreate | dict\<close>
  of \<open>UsersApi.sync\<close>, for which see \<open>validate_arguments_union\<close>.
\<close>

definition validate_arguments :: "('s, 'q, 'r) prog \<Rightarrow> ('s, 'q, 'r) prog" where
  "validate_arguments func = func"

text \<open>
  Modelled from the spec: permit/api/base.py, with \<open>pagination_params\<close>, is not among the
  sources. The spec: "pagination is \<open>page\<close>/\<open>per_page\<close> query parameters".
\<close>

definition pagination_params :: "int \<Rightarrow> int \<Rightarrow> param pydict" where
  "pagination_params page per_page = [(''page'', PInt page), (''per_page'', PInt per_page)]"

text \<open>
  Modelled from the spec: permit/api/base.py, with \<open>SimpleHttpClient\<close> and
  \<open>BasePermitApi._build_http_client\<close>, is not among the sources. The spec: the SDK's job is
  "to marshal typed requests into HTTP calls, unmarshal JSON responses into typed models",
  "issuing one HTTP request per call and awaiting its response", each module being a
  "CRUD template over a REST path". So a client is built on the API's URL followed by the
  path it is given, and each of its five methods issues one request, of that method, to the
  client's URL followed by the method's path, and hands the response to the response
  handling.
\<close>

record SimpleHttpClient =
  client_base_url :: string

definition build_http_client :: "PermitConfig \<Rightarrow> string \<Rightarrow> SimpleHttpClient" where
  "build_http_client cfg endpoint_url = \<lparr> client_base_url = api_url cfg @ endpoint_url \<rparr>"

definition SimpleHttpClient_request ::
  "'a runtime \<Rightarrow> SimpleHttpClient \<Rightarrow> http_method \<Rightarrow> string \<Rightarrow> model option \<Rightarrow>
   param pydict option \<Rightarrow> 'a json_body option \<Rightarrow> ('s, 'a api_request, 'a) prog" where
  "SimpleHttpClient_request rt client meth url mdl params json =
     await (http_send (remote rt)
              \<lparr> rq_method = meth, rq_url = client_base_url client @ url,
                rq_params = params, rq_json = json \<rparr>)
       (\<lambda>response. from_result (handle_response rt mdl response))"

definition SimpleHttpClient_get ::
  "'a runtime \<Rightarrow> SimpleHttpClient \<Rightarrow> string \<Rightarrow> model option \<Rightarrow> param pydict option \<Rightarrow>
   ('s, 'a api_request, 'a) prog" where
  "SimpleHttpClient_get rt client url mdl params =
     SimpleHttpClient_request rt client GET url mdl params None"

definition SimpleHttpClient_post ::
  "'a runtime \<Rightarrow> SimpleHttpClient \<Rightarrow> string \<Rightarrow> model option \<Rightarrow> 'a json_body option \<Rightarrow>
   ('s, 'a api_request, 'a) prog" where
  "SimpleHttpClient_post rt client url mdl json =
     SimpleHttpClient_request rt client POST url mdl None json"

definition SimpleHttpClient_put ::
  "'a runtime \<Rightarrow> SimpleHttpClient \<Rightarrow> string \<Rightarrow> model option \<Rightarrow> 'a json_body option \<Rightarrow>
   ('s, 'a api_request, 'a) prog" where
  "SimpleHttpClient_put rt client url mdl json =
     SimpleHttpClient_request rt client PUT url mdl None json"

definition SimpleHttpClient_patch ::
  "'a runtime \<Rightarrow> SimpleHttpClient \<Rightarrow> string \<Rightarrow> model option \<Rightarrow> 'a json_body option \<Rightarrow>
   ('s, 'a api_request, 'a) prog" where
  "SimpleHttpClient_patch rt client url mdl json =
     SimpleHttpClient_request rt client PATCH url mdl None json"

definition SimpleHttpClient_delete ::
  "'a runtime \<Rightarrow> SimpleHttpClient \<Rightarrow> string \<Rightarrow> 'a json_body option \<Rightarrow>
   ('s, 'a api_request, 'a) prog" where
  "SimpleHttpClient_delete rt client url json =
     SimpleHttpClient_request rt client DELETE url None None json"

definition or_default :: "'x option \<Rightarrow> 'x \<Rightarrow> 'x" where
  "or_default arg dflt = (case arg of None \<Rightarrow> dflt | Some v \<Rightarrow> v)"

text \<open>\<open>d.pop(k, None)\<close> on the dict object at an address.\<close>

definition dict_pop :: "nat \<Rightarrow> string \<Rightarrow> ('a sdk_state, 'q, 'a pyval) prog" where
  "dict_pop addr k = (\<lambda>s.
     case map_of (dict_at s addr) k of
       None \<Rightarrow> returns PyNone s
     | Some v \<Rightarrow>
         returns v (s\<lparr> dict_at := (dict_at s)(addr := AList.delete k (dict_at s addr)) \<rparr>))"

definition dict_read :: "nat \<Rightarrow> ('a sdk_state, 'q, 'a pyval pydict) prog" where
  "dict_read addr = (\<lambda>s. returns (dict_at s addr) s)"

section \<open>permit/api/users.py\<close>

text \<open>
  The two properties build their client from the configuration as it is when they are
  read.
\<close>

definition UsersApi_users :: "('a sdk_state, 'q, SimpleHttpClient) prog" where
  "UsersApi_users = (\<lambda>s.
     returns (build_http_client (permit_config s)
                (''/v2/facts/'' @ project (api_context (permit_config s)) @ ''/''
                   @ environment (api_context (permit_config s)) @ ''/users'')) s)"

definition UsersApi_role_assignments :: "('a sdk_state, 'q, SimpleHttpClient) prog" where
  "UsersApi_role_assignments = (\<lambda>s.
     returns (build_http_client (permit_config s)
                (''/v2/facts/'' @ project (api_context (permit_config s)) @ ''/''
                   @ environment (api_context (permit_config s)) @ ''/role_assignments'')) s)"

text \<open>
  Each method is given twice: \<open>_func\<close> is the function as written, under its decorators;
  the plain name is the decorated method, which is what a caller (and \<open>self.get\<close> inside
  the aliases) invokes.
\<close>

definition UsersApi_list_func :: "'a runtime \<Rightarrow> int option \<Rightarrow> int option \<Rightarrow> 'a api_prog" where
  "UsersApi_list_func rt page per_page =
     (let page = or_default page 1; per_page = or_default per_page 100
      in await UsersApi_users (\<lambda>users.
           SimpleHttpClient_get rt users [] (Some PaginatedResultUserRead)
             (Some (pagination_params page per_page))))"

definition UsersApi_list :: "'a runtime \<Rightarrow> int option \<Rightarrow> int option \<Rightarrow> 'a api_prog" where
  "UsersApi_list rt page per_page =
     ensure_context ENVIRONMENT_LEVEL_API_KEY
       (validate_arguments (UsersApi_list_func rt page per_page))"

definition UsersApi_get_func :: "'a runtime \<Rightarrow> string \<Rightarrow> 'a api_prog" where
  "UsersApi_get_func rt user_key =
     await UsersApi_users (\<lambda>users.
       SimpleHttpClient_get rt users (''/'' @ user_key) (Some UserRead) None)"

definition UsersApi_get :: "'a runtime \<Rightarrow> string \<Rightarrow> 'a api_prog" where
  "UsersApi_get rt user_key =
     ensure_context ENVIRONMENT_LEVEL_API_KEY (validate_arguments (UsersApi_get_func rt user_key))"

definition UsersApi_get_by_key_func :: "'a runtime \<Rightarrow> string \<Rightarrow> 'a api_prog" where
  "UsersApi_get_by_key_func rt user_key = UsersApi_get rt user_key"

definition UsersApi_get_by_key :: "'a runtime \<Rightarrow> string \<Rightarrow> 'a api_prog" where
  "UsersApi_get_by_key rt user_key =
     ensure_context ENVIRONMENT_LEVEL_API_KEY
       (validate_arguments (UsersApi_get_by_key_func rt user_key))"

definition UsersApi_get_by_id_func :: "'a runtime \<Rightarrow> string \<Rightarrow> 'a api_prog" where
  "UsersApi_get_by_id_func rt user_id = UsersApi_get rt user_id"

definition UsersApi_get_by_id :: "'a runtime \<Rightarrow> string \<Rightarrow> 'a api_prog" where
  "UsersApi_get_by_id rt user_id =
     ensure_context ENVIRONMENT_LEVEL_API_KEY
       (validate_arguments (UsersApi_get_by_id_func rt user_id))"

definition UsersApi_create_func :: "'a runtime \<Rightarrow> 'a UserCreate \<Rightarrow> 'a api_prog" where
  "UsersApi_create_func rt user_data =
     await UsersApi_users (\<lambda>users.
       SimpleHttpClient_post rt users [] (Some UserRead) (Some (JsonUserCreate user_data)))"

definition UsersApi_create :: "'a runtime \<Rightarrow> 'a UserCreate \<Rightarrow> 'a api_prog" where
  "UsersApi_create rt user_data =
     ensure_context ENVIRONMENT_LEVEL_API_KEY
       (validate_arguments (UsersApi_create_func rt user_data))"

definition UsersApi_update_func :: "'a runtime \<Rightarrow> string \<Rightarrow> 'a BaseModel \<Rightarrow> 'a api_prog" where
  "UsersApi_update_func rt user_key user_data =
     await UsersApi_users (\<lambda>users.
       SimpleHttpClient_patch rt users (''/'' @ user_key) (Some UserRead)
         (Some (JsonModel user_data)))"

definition UsersApi_update :: "'a runtime \<Rightarrow> string \<Rightarrow> 'a BaseModel \<Rightarrow> 'a api_prog" where
  "UsersApi_update rt user_key user_data =
     ensure_context ENVIRONMENT_LEVEL_API_KEY
       (validate_arguments (UsersApi_update_func rt user_key user_data))"

text \<open>
  The argument of \<open>sync\<close>, a \<open>UserCreate | dict\<close>: a model object, or a reference to a
  dict of the caller. The request body \<open>json=user\<close> is the dict as it is when the request
  is sent, that is after the \<open>pop\<close>.
\<close>

datatype 'a user_arg = User_model "'a UserCreate" | User_dict nat

definition UsersApi_sync_func :: "'a runtime \<Rightarrow> 'a user_arg \<Rightarrow> 'a api_prog" where
  "UsersApi_sync_func rt user =
     (case user of
        User_dict addr \<Rightarrow>
          await (dict_pop addr ''key'') (\<lambda>user_key.
            case user_key of
              PyNone \<Rightarrow> raise (KeyError ''required 'key' in input dictionary'')
            | PyVal v \<Rightarrow>
                await UsersApi_users (\<lambda>users.
                await (dict_read addr) (\<lambda>body.
                  SimpleHttpClient_put rt users (''/'' @ format_value rt v) (Some UserRead)
                    (Some (JsonDict body)))))
      | User_model m \<Rightarrow>
          (let user_key = key m
           in await UsersApi_users (\<lambda>users.
                SimpleHttpClient_put rt users (''/'' @ user_key) (Some UserRead)
                  (Some (JsonUserCreate m)))))"

text \<open>
  \<open>validate_arguments\<close> on a function of one \<open>UserCreate | dict\<close> argument. pydantic
  tries the members of the union in their order: a dict that validates as a \<open>UserCreate\<close>
  reaches the function as the model made of it, and the caller's dict is not what the
  function works on; a dict that does not is handed on as the dict object it is. A model
  is handed on as a model.
\<close>

definition validated_user :: "'a runtime \<Rightarrow> 'a user_arg \<Rightarrow> 'a sdk_state \<Rightarrow> 'a user_arg" where
  "validated_user rt user s =
     (case user of
        User_model m \<Rightarrow> User_model m
      | User_dict addr \<Rightarrow>
          (case validate_user rt (dict_at s addr) of
             Some m \<Rightarrow> User_model m
           | None \<Rightarrow> User_dict addr))"

definition validate_arguments_union ::
  "'a runtime \<Rightarrow> ('a user_arg \<Rightarrow> 'a api_prog) \<Rightarrow> 'a user_arg \<Rightarrow> 'a api_prog" where
  "validate_arguments_union rt func user = (\<lambda>s. func (validated_user rt user s) s)"

definition UsersApi_sync :: "'a runtime \<Rightarrow> 'a user_arg \<Rightarrow> 'a api_prog" where
  "UsersApi_sync rt user =
     ensure_context ENVIRONMENT_LEVEL_API_KEY
       (validate_arguments_union rt (UsersApi_sync_func rt) user)"

definition UsersApi_delete_func :: "'a runtime \<Rightarrow> string \<Rightarrow> 'a api_prog" where
  "UsersApi_delete_func rt user_key =
     await UsersApi_users (\<lambda>users. SimpleHttpClient_delete rt users (''/'' @ user_key) None)"

definition UsersApi_delete :: "'a runtime \<Rightarrow> string \<Rightarrow> 'a api_prog" where
  "UsersApi_delete rt user_key =
     ensure_context ENVIRONMENT_LEVEL_API_KEY
       (validate_arguments (UsersApi_delete_func rt user_key))"

definition UsersApi_assign_role_func ::
  "'a runtime \<Rightarrow> 'a RoleAssignmentCreate \<Rightarrow> 'a api_prog" where
  "UsersApi_assign_role_func rt assignment =
     await UsersApi_users (\<lambda>users.
       SimpleHttpClient_post rt users (''/'' @ assignment_user assignment @ ''/roles'')
         (Some RoleAssignmentRead)
         (Some (JsonDict (AList.delete ''user'' (dict assignment)))))"

definition UsersApi_assign_role :: "'a runtime \<Rightarrow> 'a RoleAssignmentCreate \<Rightarrow> 'a api_prog" where
  "UsersApi_assign_role rt assignment =
     ensure_context ENVIRONMENT_LEVEL_API_KEY
       (validate_arguments (UsersApi_assign_role_func rt assignment))"

definition UsersApi_unassign_role_func ::
  "'a runtime \<Rightarrow> 'a RoleAssignmentRemove \<Rightarrow> 'a api_prog" where
  "UsersApi_unassign_role_func rt unassignment =
     await UsersApi_users (\<lambda>users.
       SimpleHttpClient_delete rt users (''/'' @ assignment_user unassignment @ ''/roles'')
         (Some (JsonDict (AList.delete ''user'' (dict unassignment)))))"

definition UsersApi_unassign_role :: "'a runtime \<Rightarrow> 'a RoleAssignmentRemove \<Rightarrow> 'a api_prog" where
  "UsersApi_unassign_role rt unassignment =
     ensure_context ENVIRONMENT_LEVEL_API_KEY
       (validate_arguments (UsersApi_unassign_role_func rt unassignment))"

definition UsersApi_get_assigned_roles_func ::
  "'a runtime \<Rightarrow> string \<Rightarrow> string option \<Rightarrow> int option \<Rightarrow> int option \<Rightarrow> 'a api_prog" where
  "UsersApi_get_assigned_roles_func rt user tenant page per_page =
     (let page = or_default page 1; per_page = or_default per_page 100;
          params = pagination_params page per_page;
          params = AList.update ''user'' (PStr user) params;
          params = (case tenant of
                      Some t \<Rightarrow> AList.update ''tenant'' (PStr t) params
                    | None \<Rightarrow> params)
      in await UsersApi_role_assignments (\<lambda>role_assignments.
           SimpleHttpClient_get rt role_assignments [] (Some (List_of RoleAssignmentRead))
             (Some params)))"

definition UsersApi_get_assigned_roles ::
  "'a runtime \<Rightarrow> string \<Rightarrow> string option \<Rightarrow> int option \<Rightarrow> int option \<Rightarrow> 'a api_prog" where
  "UsersApi_get_assigned_roles rt user tenant page per_page =
     ensure_context ENVIRONMENT_LEVEL_API_KEY
       (validate_arguments (UsersApi_get_assigned_roles_func rt user tenant page per_page))"

text \<open>The public methods of \<open>UsersApi\<close>, as calls with their arguments.\<close>

datatype 'a UsersApi_call =
    U_list "int option" "int option"
  | U_get string
  | U_get_by_key string
  | U_get_by_id string
  | U_create "'a UserCreate"
  | U_update string "'a BaseModel"
  | U_sync "'a user_arg"
  | U_delete string
  | U_assign_role "'a RoleAssignmentCreate"
  | U_unassign_role "'a RoleAssignmentRemove"
  | U_get_assigned_roles string "string option" "int option" "int option"

fun UsersApi_invoke :: "'a runtime \<Rightarrow> 'a UsersApi_call \<Rightarrow> 'a api_prog" where
  "UsersApi_invoke rt (U_list page per_page) = UsersApi_list rt page per_page"
| "UsersApi_invoke rt (U_get user_key) = UsersApi_get rt user_key"
| "UsersApi_invoke rt (U_get_by_key user_key) = UsersApi_get_by_key rt user_key"
| "UsersApi_invoke rt (U_get_by_id user_id) = UsersApi_get_by_id rt user_id"
| "UsersApi_invoke rt (U_create user_data) = UsersApi_create rt user_data"
| "UsersApi_invoke rt (U_update user_key user_data) = UsersApi_update rt user_key user_data"
| "UsersApi_invoke rt (U_sync user) = UsersApi_sync rt user"
| "UsersApi_invoke rt (U_delete user_key) = UsersApi_delete rt user_key"
| "UsersApi_invoke rt (U_assign_role assignment) = UsersApi_assign_role rt assignment"
| "UsersApi_invoke rt (U_unassign_role unassignment) = UsersApi_unassign_role rt unassignment"
| "UsersApi_invoke rt (U_get_assigned_roles user tenant page per_page) =
     UsersApi_get_assigned_roles rt user tenant page per_page"

text \<open>
  What the guard of a call wraps: the function as written, on the arguments that
  \<open>validate_arguments\<close> hands it.
\<close>

fun UsersApi_func :: "'a runtime \<Rightarrow> 'a UsersApi_call \<Rightarrow> 'a api_prog" where
  "UsersApi_func rt (U_list page per_page) = UsersApi_list_func rt page per_page"
| "UsersApi_func rt (U_get user_key) = UsersApi_get_func rt user_key"
| "UsersApi_func rt (U_get_by_key user_key) = UsersApi_get_by_key_func rt user_key"
| "UsersApi_func rt (U_get_by_id user_id) = UsersApi_get_by_id_func rt user_id"
| "UsersApi_func rt (U_create user_data) = UsersApi_create_func rt user_data"
| "UsersApi_func rt (U_update user_key user_data) = UsersApi_update_func rt user_key user_data"
| "UsersApi_func rt (U_sync user) = validate_arguments_union rt (UsersApi_sync_func rt) user"
| "UsersApi_func rt (U_delete user_key) = UsersApi_delete_func rt user_key"
| "UsersApi_func rt (U_assign_role assignment) = UsersApi_assign_role_func rt assignment"
| "UsersApi_func rt (U_unassign_role unassignment) =
     UsersApi_unassign_role_func rt unassignment"
| "UsersApi_func rt (U_get_assigned_roles user tenant page per_page) =
     UsersApi_get_assigned_roles_func rt user tenant page per_page"

text \<open>The \<open>model=\<close> of the request a call makes (of \<open>self.get\<close> for the aliases).\<close>

fun UsersApi_call_model :: "'a UsersApi_call \<Rightarrow> model option" where
  "UsersApi_call_model (U_list page per_page) = Some PaginatedResultUserRead"
| "UsersApi_call_model (U_get user_key) = Some UserRead"
| "UsersApi_call_model (U_get_by_key user_key) = Some UserRead"
| "UsersApi_call_model (U_get_by_id user_id) = Some UserRead"
| "UsersApi_call_model (U_create user_data) = Some UserRead"
| "UsersApi_call_model (U_update user_key user_data) = Some UserRead"
| "UsersApi_call_model (U_sync user) = Some UserRead"
| "UsersApi_call_model (U_delete user_key) = None"
| "UsersApi_call_model (U_assign_role assignment) = Some RoleAssignmentRead"
| "UsersApi_call_model (U_unassign_role unassignment) = None"
| "UsersApi_call_model (U_get_assigned_roles user tenant page per_page) =
     Some (List_of RoleAssignmentRead)"

section \<open>permit/api/tenants.py\<close>

text \<open>
  A \<open>TenantsApi\<close> object holds the client its constructor builds. (Its \<open>config\<close> attribute
  is the shared configuration object of the state.) The methods of this class are under
  \<open>ensure_context\<close> only.
\<close>

record TenantsApi =
  tenants :: SimpleHttpClient

definition TenantsApi_init :: "PermitConfig \<Rightarrow> TenantsApi" where
  "TenantsApi_init cfg =
     \<lparr> tenants = build_http_client cfg
                    (''/v2/facts/'' @ project (api_context cfg) @ ''/''
                       @ environment (api_context cfg) @ ''/tenants'') \<rparr>"

definition TenantsApi_list_func ::
  "'a runtime \<Rightarrow> TenantsApi \<Rightarrow> int option \<Rightarrow> int option \<Rightarrow> 'a api_prog" where
  "TenantsApi_list_func rt self page per_page =
     (let page = or_default page 1; per_page = or_default per_page 100
      in SimpleHttpClient_get rt (tenants self) [] (Some (List_of TenantRead))
           (Some (pagination_params page per_page)))"

definition TenantsApi_list ::
  "'a runtime \<Rightarrow> TenantsApi \<Rightarrow> int option \<Rightarrow> int option \<Rightarrow> 'a api_prog" where
  "TenantsApi_list rt self page per_page =
     ensure_context ENVIRONMENT_LEVEL_API_KEY (TenantsApi_list_func rt self page per_page)"

definition TenantsApi_list_tenant_users_func ::
  "'a runtime \<Rightarrow> TenantsApi \<Rightarrow> string \<Rightarrow> int option \<Rightarrow> int option \<Rightarrow> 'a api_prog" where
  "TenantsApi_list_tenant_users_func rt self tenant_key page per_page =
     (let page = or_default page 1; per_page = or_default per_page 100
      in SimpleHttpClient_get rt (tenants self) (''/'' @ tenant_key @ ''/users'')
           (Some PaginatedResultUserRead) (Some (pagination_params page per_page)))"

definition TenantsApi_list_tenant_users ::
  "'a runtime \<Rightarrow> TenantsApi \<Rightarrow> string \<Rightarrow> int option \<Rightarrow> int option \<Rightarrow> 'a api_prog" where
  "TenantsApi_list_tenant_users rt self tenant_key page per_page =
     ensure_context ENVIRONMENT_LEVEL_API_KEY
       (TenantsApi_list_tenant_users_func rt self tenant_key page per_page)"

definition TenantsApi_get_func :: "'a runtime \<Rightarrow> TenantsApi \<Rightarrow> string \<Rightarrow> 'a api_prog" where
  "TenantsApi_get_func rt self tenant_key =
     SimpleHttpClient_get rt (tenants self) (''/'' @ tenant_key) (Some TenantRead) None"

definition TenantsApi_get :: "'a runtime \<Rightarrow> TenantsApi \<Rightarrow> string \<Rightarrow> 'a api_prog" where
  "TenantsApi_get rt self tenant_key =
     ensure_context ENVIRONMENT_LEVEL_API_KEY (TenantsApi_get_func rt self tenant_key)"

definition TenantsApi_get_by_key_func :: "'a runtime \<Rightarrow> TenantsApi \<Rightarrow> string \<Rightarrow> 'a api_prog" where
  "TenantsApi_get_by_key_func rt self tenant_key = TenantsApi_get rt self tenant_key"

definition TenantsApi_get_by_key :: "'a runtime \<Rightarrow> TenantsApi \<Rightarrow> string \<Rightarrow> 'a api_prog" where
  "TenantsApi_get_by_key rt self tenant_key =
     ensure_context ENVIRONMENT_LEVEL_API_KEY (TenantsApi_get_by_key_func rt self tenant_key)"

definition TenantsApi_get_by_id_func :: "'a runtime \<Rightarrow> TenantsApi \<Rightarrow> string \<Rightarrow> 'a api_prog" where
  "TenantsApi_get_by_id_func rt self tenant_id = TenantsApi_get rt self tenant_id"

definition TenantsApi_get_by_id :: "'a runtime \<Rightarrow> TenantsApi \<Rightarrow> string \<Rightarrow> 'a api_prog" where
  "TenantsApi_get_by_id rt self tenant_id =
     ensure_context ENVIRONMENT_LEVEL_API_KEY (TenantsApi_get_by_id_func rt self tenant_id)"

definition TenantsApi_create_func ::
  "'a runtime \<Rightarrow> TenantsApi \<Rightarrow> 'a BaseModel \<Rightarrow> 'a api_prog" where
  "TenantsApi_create_func rt self tenant_data =
     SimpleHttpClient_post rt (tenants self) [] (Some TenantRead)
       (Some (JsonDict (dict tenant_data)))"

definition TenantsApi_create :: "'a runtime \<Rightarrow> TenantsApi \<Rightarrow> 'a BaseModel \<Rightarrow> 'a api_prog" where
  "TenantsApi_create rt self tenant_data =
     ensure_context ENVIRONMENT_LEVEL_API_KEY (TenantsApi_create_func rt self tenant_data)"

definition TenantsApi_update_func ::
  "'a runtime \<Rightarrow> TenantsApi \<Rightarrow> string \<Rightarrow> 'a BaseModel \<Rightarrow> 'a api_prog" where
  "TenantsApi_update_func rt self tenant_key tenant_data =
     SimpleHttpClient_patch rt (tenants self) (''/'' @ tenant_key) (Some TenantRead)
       (Some (JsonDict (dict tenant_data)))"

definition TenantsApi_update ::
  "'a runtime \<Rightarrow> TenantsApi \<Rightarrow> string \<Rightarrow> 'a BaseModel \<Rightarrow> 'a api_prog" where
  "TenantsApi_update rt self tenant_key tenant_data =
     ensure_context ENVIRONMENT_LEVEL_API_KEY
       (TenantsApi_update_func rt self tenant_key tenant_data)"

definition TenantsApi_delete_func :: "'a runtime \<Rightarrow> TenantsApi \<Rightarrow> string \<Rightarrow> 'a api_prog" where
  "TenantsApi_delete_func rt self tenant_key =
     SimpleHttpClient_delete rt (tenants self) (''/'' @ tenant_key) None"

definition TenantsApi_delete :: "'a runtime \<Rightarrow> TenantsApi \<Rightarrow> string \<Rightarrow> 'a api_prog" where
  "TenantsApi_delete rt self tenant_key =
     ensure_context ENVIRONMENT_LEVEL_API_KEY (TenantsApi_delete_func rt self tenant_key)"

definition TenantsApi_delete_tenant_user_func ::
  "'a runtime \<Rightarrow> TenantsApi \<Rightarrow> string \<Rightarrow> string \<Rightarrow> 'a api_prog" where
  "TenantsApi_delete_tenant_user_func rt self tenant_key user_key =
     SimpleHttpClient_delete rt (tenants self) (''/'' @ tenant_key @ ''/users/'' @ user_key) None"

definition TenantsApi_delete_tenant_user ::
  "'a runtime \<Rightarrow> TenantsApi \<Rightarrow> string \<Rightarrow> string \<Rightarrow> 'a api_prog" where
  "TenantsApi_delete_tenant_user rt self tenant_key user_key =
     ensure_context ENVIRONMENT_LEVEL_API_KEY
       (TenantsApi_delete_tenant_user_func rt self tenant_key user_key)"

text \<open>The public methods of \<open>TenantsApi\<close>, as calls with their arguments.\<close>

datatype 'a TenantsApi_call =
    T_list "int option" "int option"
  | T_list_tenant_users string "int option" "int option"
  | T_get string
  | T_get_by_key string
  | T_get_by_id string
  | T_create "'a BaseModel"
  | T_update string "'a BaseModel"
  | T_delete string
  | T_delete_tenant_user string string

fun TenantsApi_invoke :: "'a runtime \<Rightarrow> TenantsApi \<Rightarrow> 'a TenantsApi_call \<Rightarrow> 'a api_prog" where
  "TenantsApi_invoke rt self (T_list page per_page) = TenantsApi_list rt self page per_page"
| "TenantsApi_invoke rt self (T_list_tenant_users tenant_key page per_page) =
     TenantsApi_list_tenant_users rt self tenant_key page per_page"
| "TenantsApi_invoke rt self (T_get tenant_key) = TenantsApi_get rt self tenant_key"
| "TenantsApi_invoke rt self (T_get_by_key tenant_key) = TenantsApi_get_by_key rt self tenant_key"
| "TenantsApi_invoke rt self (T_get_by_id tenant_id) = TenantsApi_get_by_id rt self tenant_id"
| "TenantsApi_invoke rt self (T_create tenant_data) = TenantsApi_create rt self tenant_data"
| "TenantsApi_invoke rt self (T_update tenant_key tenant_data) =
     TenantsApi_update rt self tenant_key tenant_data"
| "TenantsApi_invoke rt self (T_delete tenant_key) = TenantsApi_delete rt self tenant_key"
| "TenantsApi_invoke rt self (T_delete_tenant_user tenant_key user_key) =
     TenantsApi_delete_tenant_user rt self tenant_key user_key"

fun TenantsApi_func :: "'a runtime \<Rightarrow> TenantsApi \<Rightarrow> 'a TenantsApi_call \<Rightarrow> 'a api_prog" where
  "TenantsApi_func rt self (T_list page per_page) = TenantsApi_list_func rt self page per_page"
| "TenantsApi_func rt self (T_list_tenant_users tenant_key page per_page) =
     TenantsApi_list_tenant_users_func rt self tenant_key page per_page"
| "TenantsApi_func rt self (T_get tenant_key) = TenantsApi_get_func rt self tenant_key"
| "TenantsApi_func rt self (T_get_by_key tenant_key) =
     TenantsApi_get_by_key_func rt self tenant_key"
| "TenantsApi_func rt self (T_get_by_id tenant_id) = TenantsApi_get_by_id_func rt self tenant_id"
| "TenantsApi_func rt self (T_create tenant_data) = TenantsApi_create_func rt self tenant_data"
| "TenantsApi_func rt self (T_update tenant_key tenant_data) =
     TenantsApi_update_func rt self tenant_key tenant_data"
| "TenantsApi_func rt self (T_delete tenant_key) = TenantsApi_delete_func rt self tenant_key"
| "TenantsApi_func rt self (T_delete_tenant_user tenant_key user_key) =
     TenantsApi_delete_tenant_user_func rt self tenant_key user_key"

text \<open>The \<open>model=\<close> of the request a call makes (of \<open>self.get\<close> for the aliases).\<close>

fun TenantsApi_call_model :: "'a TenantsApi_call \<Rightarrow> model option" where
  "TenantsApi_call_model (T_list page per_page) = Some (List_of TenantRead)"
| "TenantsApi_call_model (T_list_tenant_users tenant_key page per_page) =
     Some PaginatedResultUserRead"
| "TenantsApi_call_model (T_get tenant_key) = Some TenantRead"
| "TenantsApi_call_model (T_get_by_key tenant_key) = Some TenantRead"
| "TenantsApi_call_model (T_get_by_id tenant_id) = Some TenantRead"
| "TenantsApi_call_model (T_create tenant_data) = Some TenantRead"
| "TenantsApi_call_model (T_update tenant_key tenant_data) = Some TenantRead"
| "TenantsApi_call_model (T_delete tenant_key) = None"
| "TenantsApi_call_model (T_delete_tenant_user tenant_key user_key) = None"

section \<open>permit/api/environments.py\<close>

record EnvironmentsApi =
  environments :: SimpleHttpClient

definition EnvironmentsApi_init :: "PermitConfig \<Rightarrow> EnvironmentsApi" where
  "EnvironmentsApi_init cfg = \<lparr> environments = build_http_client cfg [] \<rparr>"

definition EnvironmentsApi_list_func ::
  "'a runtime \<Rightarrow> EnvironmentsApi \<Rightarrow> string \<Rightarrow> int option \<Rightarrow> int option \<Rightarrow> 'a api_prog" where
  "EnvironmentsApi_list_func rt self project_key page per_page =
     (let page = or_default page 1; per_page = or_default per_page 100
      in SimpleHttpClient_get rt (environments self)
           (''/v2/projects/'' @ project_key @ ''/envs'')
           (Some (List_of EnvironmentRead)) (Some (pagination_params page per_page)))"

definition EnvironmentsApi_list ::
  "'a runtime \<Rightarrow> EnvironmentsApi \<Rightarrow> string \<Rightarrow> int option \<Rightarrow> int option \<Rightarrow> 'a api_prog" where
  "EnvironmentsApi_list rt self project_key page per_page =
     ensure_context PROJECT_LEVEL_API_KEY
       (validate_arguments (EnvironmentsApi_list_func rt self project_key page per_page))"

definition EnvironmentsApi_get_func ::
  "'a runtime \<Rightarrow> EnvironmentsApi \<Rightarrow> string \<Rightarrow> string \<Rightarrow> 'a api_prog" where
  "EnvironmentsApi_get_func rt self project_key environment_key =
     SimpleHttpClient_get rt (environments self)
       (''/v2/projects/'' @ project_key @ ''/envs/'' @ environment_key)
       (Some EnvironmentRead) None"

definition EnvironmentsApi_get ::
  "'a runtime \<Rightarrow> EnvironmentsApi \<Rightarrow> string \<Rightarrow> string \<Rightarrow> 'a api_prog" where
  "EnvironmentsApi_get rt self project_key environment_key =
     ensure_context PROJECT_LEVEL_API_KEY
       (validate_arguments (EnvironmentsApi_get_func rt self project_key environment_key))"

definition EnvironmentsApi_get_by_key_func ::
  "'a runtime \<Rightarrow> EnvironmentsApi \<Rightarrow> string \<Rightarrow> string \<Rightarrow> 'a api_prog" where
  "EnvironmentsApi_get_by_key_func rt self project_key environment_key =
     EnvironmentsApi_get rt self project_key environment_key"

definition EnvironmentsApi_get_by_key ::
  "'a runtime \<Rightarrow> EnvironmentsApi \<Rightarrow> string \<Rightarrow> string \<Rightarrow> 'a api_prog" where
  "EnvironmentsApi_get_by_key rt self project_key environment_key =
     ensure_context PROJECT_LEVEL_API_KEY
       (validate_arguments (EnvironmentsApi_get_by_key_func rt self project_key environment_key))"

definition EnvironmentsApi_get_by_id_func ::
  "'a runtime \<Rightarrow> EnvironmentsApi \<Rightarrow> string \<Rightarrow> string \<Rightarrow> 'a api_prog" where
  "EnvironmentsApi_get_by_id_func rt self project_id environment_id =
     EnvironmentsApi_get rt self project_id environment_id"

definition EnvironmentsApi_get_by_id ::
  "'a runtime \<Rightarrow> EnvironmentsApi \<Rightarrow> string \<Rightarrow> string \<Rightarrow> 'a api_prog" where
  "EnvironmentsApi_get_by_id rt self project_id environment_id =
     ensure_context PROJECT_LEVEL_API_KEY
       (validate_arguments (EnvironmentsApi_get_by_id_func rt self project_id environment_id))"

definition EnvironmentsApi_get_stats_func ::
  "'a runtime \<Rightarrow> EnvironmentsApi \<Rightarrow> string \<Rightarrow> string \<Rightarrow> 'a api_prog" where
  "EnvironmentsApi_get_stats_func rt self project_key environment_key =
     SimpleHttpClient_get rt (environments self)
       (''/v2/projects/'' @ project_key @ ''/envs/'' @ environment_key @ ''/stats'')
       (Some EnvironmentStats) None"

definition EnvironmentsApi_get_stats ::
  "'a runtime \<Rightarrow> EnvironmentsApi \<Rightarrow> string \<Rightarrow> string \<Rightarrow> 'a api_prog" where
  "EnvironmentsApi_get_stats rt self project_key environment_key =
     ensure_context PROJECT_LEVEL_API_KEY
       (validate_arguments (EnvironmentsApi_get_stats_func rt self project_key environment_key))"

definition EnvironmentsApi_get_api_key_func ::
  "'a runtime \<Rightarrow> EnvironmentsApi \<Rightarrow> string \<Rightarrow> string \<Rightarrow> 'a api_prog" where
  "EnvironmentsApi_get_api_key_func rt self project_key environment_key =
     SimpleHttpClient_get rt (environments self)
       (''/v2/api-key/'' @ project_key @ ''/'' @ environment_key)
       (Some APIKeyRead) None"

definition EnvironmentsApi_get_api_key ::
  "'a runtime \<Rightarrow> EnvironmentsApi \<Rightarrow> string \<Rightarrow> string \<Rightarrow> 'a api_prog" where
  "EnvironmentsApi_get_api_key rt self project_key environment_key =
     ensure_context PROJECT_LEVEL_API_KEY
       (validate_arguments (EnvironmentsApi_get_api_key_func rt self project_key environment_key))"

definition EnvironmentsApi_create_func ::
  "'a runtime \<Rightarrow> EnvironmentsApi \<Rightarrow> string \<Rightarrow> 'a BaseModel \<Rightarrow> 'a api_prog" where
  "EnvironmentsApi_create_func rt self project_key environment_data =
     SimpleHttpClient_post rt (environments self)
       (''/v2/projects/'' @ project_key @ ''/envs'')
       (Some EnvironmentRead) (Some (JsonModel environment_data))"

definition EnvironmentsApi_create ::
  "'a runtime \<Rightarrow> EnvironmentsApi \<Rightarrow> string \<Rightarrow> 'a BaseModel \<Rightarrow> 'a api_prog" where
  "EnvironmentsApi_create rt self project_key environment_data =
     ensure_context PROJECT_LEVEL_API_KEY
       (validate_arguments (EnvironmentsApi_create_func rt self project_key environment_data))"

definition EnvironmentsApi_update_func ::
  "'a runtime \<Rightarrow> EnvironmentsApi \<Rightarrow> string \<Rightarrow> string \<Rightarrow> 'a BaseModel \<Rightarrow> 'a api_prog" where
  "EnvironmentsApi_update_func rt self project_key environment_key environment_data =
     SimpleHttpClient_patch rt (environments self)
       (''/v2/projects/'' @ project_key @ ''/envs/'' @ environment_key)
       (Some EnvironmentRead) (Some (JsonModel environment_data))"

definition EnvironmentsApi_update ::
  "'a runtime \<Rightarrow> EnvironmentsApi \<Rightarrow> string \<Rightarrow> string \<Rightarrow> 'a BaseModel \<Rightarrow> 'a api_prog" where
  "EnvironmentsApi_update rt self project_key environment_key environment_data =
     ensure_context PROJECT_LEVEL_API_KEY
       (validate_arguments
          (EnvironmentsApi_update_func rt self project_key environment_key environment_data))"

definition EnvironmentsApi_copy_func ::
  "'a runtime \<Rightarrow> EnvironmentsApi \<Rightarrow> string \<Rightarrow> string \<Rightarrow> 'a BaseModel \<Rightarrow> 'a api_prog" where
  "EnvironmentsApi_copy_func rt self project_key environment_key copy_params =
     SimpleHttpClient_post rt (environments self)
       (''/v2/projects/'' @ project_key @ ''/envs/'' @ environment_key @ ''/copy'')
       (Some EnvironmentRead) (Some (JsonModel copy_params))"

definition EnvironmentsApi_copy ::
  "'a runtime \<Rightarrow> EnvironmentsApi \<Rightarrow> string \<Rightarrow> string \<Rightarrow> 'a BaseModel \<Rightarrow> 'a api_prog" where
  "EnvironmentsApi_copy rt self project_key environment_key copy_params =
     ensure_context PROJECT_LEVEL_API_KEY
       (validate_arguments
          (EnvironmentsApi_copy_func rt self project_key environment_key copy_params))"

definition EnvironmentsApi_delete_func ::
  "'a runtime \<Rightarrow> EnvironmentsApi \<Rightarrow> string \<Rightarrow> string \<Rightarrow> 'a api_prog" where
  "EnvironmentsApi_delete_func rt self project_key environment_key =
     SimpleHttpClient_delete rt (environments self)
       (''/v2/projects/'' @ project_key @ ''/envs/'' @ environment_key) None"

definition EnvironmentsApi_delete ::
  "'a runtime \<Rightarrow> EnvironmentsApi \<Rightarrow> string \<Rightarrow> string \<Rightarrow> 'a api_prog" where
  "EnvironmentsApi_delete rt self project_key environment_key =
     ensure_context PROJECT_LEVEL_API_KEY
       (validate_arguments (EnvironmentsApi_delete_func rt self project_key environment_key))"

text \<open>The public methods of \<open>EnvironmentsApi\<close>, as calls with their arguments.\<close>

datatype 'a EnvironmentsApi_call =
    E_list string "int option" "int option"
  | E_get string string
  | E_get_by_key string string
  | E_get_by_id string string
  | E_get_stats string string
  | E_get_api_key string string
  | E_create string "'a BaseModel"
  | E_update string string "'a BaseModel"
  | E_copy string string "'a BaseModel"
  | E_delete string string

fun EnvironmentsApi_invoke ::
  "'a runtime \<Rightarrow> EnvironmentsApi \<Rightarrow> 'a EnvironmentsApi_call \<Rightarrow> 'a api_prog" where
  "EnvironmentsApi_invoke rt self (E_list project_key page per_page) =
     EnvironmentsApi_list rt self project_key page per_page"
| "EnvironmentsApi_invoke rt self (E_get project_key environment_key) =
     EnvironmentsApi_get rt self project_key environment_key"
| "EnvironmentsApi_invoke rt self (E_get_by_key project_key environment_key) =
     EnvironmentsApi_get_by_key rt self project_key environment_key"
| "EnvironmentsApi_invoke rt self (E_get_by_id project_id environment_id) =
     EnvironmentsApi_get_by_id rt self project_id environment_id"
| "EnvironmentsApi_invoke rt self (E_get_stats project_key environment_key) =
     EnvironmentsApi_get_stats rt self project_key environment_key"
| "EnvironmentsApi_invoke rt self (E_get_api_key project_key environment_key) =
     EnvironmentsApi_get_api_key rt self project_key environment_key"
| "EnvironmentsApi_invoke rt self (E_create project_key environment_data) =
     EnvironmentsApi_create rt self project_key environment_data"
| "EnvironmentsApi_invoke rt self (E_update project_key environment_key environment_data) =
     EnvironmentsApi_update rt self project_key environment_key environment_data"
| "EnvironmentsApi_invoke rt self (E_copy project_key environment_key copy_params) =
     EnvironmentsApi_copy rt self project_key environment_key copy_params"
| "EnvironmentsApi_invoke rt self (E_delete project_key environment_key) =
     EnvironmentsApi_delete rt self project_key environment_key"

fun EnvironmentsApi_func ::
  "'a runtime \<Rightarrow> EnvironmentsApi \<Rightarrow> 'a EnvironmentsApi_call \<Rightarrow> 'a api_prog" where
  "EnvironmentsApi_func rt self (E_list project_key page per_page) =
     EnvironmentsApi_list_func rt self project_key page per_page"
| "EnvironmentsApi_func rt self (E_get project_key environment_key) =
     EnvironmentsApi_get_func rt self project_key environment_key"
| "EnvironmentsApi_func rt self (E_get_by_key project_key environment_key) =
     EnvironmentsApi_get_by_key_func rt self project_key environment_key"
| "EnvironmentsApi_func rt self (E_get_by_id project_id environment_id) =
     EnvironmentsApi_get_by_id_func rt self project_id environment_id"
| "EnvironmentsApi_func rt self (E_get_stats project_key environment_key) =
     EnvironmentsApi_get_stats_func rt self project_key environment_key"
| "EnvironmentsApi_func rt self (E_get_api_key project_key environment_key) =
     EnvironmentsApi_get_api_key_func rt self project_key environment_key"
| "EnvironmentsApi_func rt self (E_create project_key environment_data) =
     EnvironmentsApi_create_func rt self project_key environment_data"
| "EnvironmentsApi_func rt self (E_update project_key environment_key environment_data) =
     EnvironmentsApi_update_func rt self project_key environment_key environment_data"
| "EnvironmentsApi_func rt self (E_copy project_key environment_key copy_params) =
     EnvironmentsApi_copy_func rt self project_key environment_key copy_params"
| "EnvironmentsApi_func rt self (E_delete project_key environment_key) =
     EnvironmentsApi_delete_func rt self project_key environment_key"

text \<open>The \<open>model=\<close> of the request a call makes (of \<open>self.get\<close> for the aliases).\<close>

fun EnvironmentsApi_call_model :: "'a EnvironmentsApi_call \<Rightarrow> model option" where
  "EnvironmentsApi_call_model (E_list project_key page per_page) =
     Some (List_of EnvironmentRead)"
| "EnvironmentsApi_call_model (E_get project_key environment_key) = Some EnvironmentRead"
| "EnvironmentsApi_call_model (E_get_by_key project_key environment_key) = Some EnvironmentRead"
| "EnvironmentsApi_call_model (E_get_by_id project_id environment_id) = Some EnvironmentRead"
| "EnvironmentsApi_call_model (E_get_stats project_key environment_key) = Some EnvironmentStats"
| "EnvironmentsApi_call_model (E_get_api_key project_key environment_key) = Some APIKeyRead"
| "EnvironmentsApi_call_model (E_create project_key environment_data) = Some EnvironmentRead"
| "EnvironmentsApi_call_model (E_update project_key environment_key environment_data) =
     Some EnvironmentRead"
| "EnvironmentsApi_call_model (E_copy project_key environment_key copy_params) =
     Some EnvironmentRead"
| "EnvironmentsApi_call_model (E_delete project_key environment_key) = None"


section \<open>Concrete inputs\<close>

text \<open>
  A configuration with the defaults of config.py and a given API context; a state whose
  dict objects are: at address 0, a user dict with a key; at address 1, a user dict
  without one; at address 2, a user dict whose key is \<open>None\<close>; at address 3, a user dict
  with a key and with a string where \<open>UserCreate\<close> wants a dict of attributes. The objects
  are strings, rendered as they are; the remote service answers every request with status
  200, and the response handling returns the content of a response below 400. A dict
  validates as a \<open>UserCreate\<close> when it has a key and no attributes that are a string.
\<close>

definition example_config :: "ApiKeyLevel \<Rightarrow> string \<Rightarrow> string \<Rightarrow> PermitConfig" where
  "example_config lvl proj env =
     \<lparr> token = ''permit_key_x'', pdp = ''http://localhost:7766'',
       api_url = ''https://api.permit.io'',
       log = \<lparr> level = ''info'', label = ''Permit'', log_as_json = False \<rparr>,
       multi_tenancy = \<lparr> default_tenant = ''default'', use_default_tenant_if_empty = True \<rparr>,
       api_context = \<lparr> api_key_level = lvl, project = proj, environment = env \<rparr> \<rparr>"

fun example_dicts :: "nat \<Rightarrow> string pyval pydict" where
  "example_dicts addr =
     (if addr = 0 then [(''key'', PyVal ''u1''), (''email'', PyVal ''u1@example.com'')]
      else if addr = 1 then [(''email'', PyVal ''u2@example.com'')]
      else if addr = 2 then [(''key'', PyNone), (''email'', PyVal ''u3@example.com'')]
      else if addr = 3 then [(''key'', PyVal ''u4''), (''attributes'', PyVal ''vip'')]
      else [])"

definition example_state :: "ApiKeyLevel \<Rightarrow> string \<Rightarrow> string \<Rightarrow> string sdk_state" where
  "example_state lvl proj env =
     \<lparr> permit_config = example_config lvl proj env, dict_at = example_dicts \<rparr>"

definition example_response :: "int \<Rightarrow> httpx_response" where
  "example_response code = \<lparr> status_code = code, content = ''{}'', headers = [] \<rparr>"

fun example_remote :: "string api_request \<Rightarrow> error + httpx_response" where
  "example_remote q = Inr (example_response 200)"

fun other_remote :: "string api_request \<Rightarrow> error + httpx_response" where
  "other_remote q =
     (if rq_method q = GET then Inr (example_response 200) else Inl (LibraryError ''timeout''))"

fun example_handle_response :: "model option \<Rightarrow> httpx_response \<Rightarrow> error + string" where
  "example_handle_response mdl response =
     (if status_code response < 400 then Inr (content response) else Inl PermitApiError)"

fun example_format_value :: "string \<Rightarrow> string" where
  "example_format_value v = v"

fun example_validate_user :: "string pyval pydict \<Rightarrow> string UserCreate option" where
  "example_validate_user d =
     (case (map_of d ''key'', map_of d ''attributes'') of
        (Some (PyVal k), None) \<Rightarrow> Some \<lparr> dict = d, key = k \<rparr>
      | (Some (PyVal k), Some PyNone) \<Rightarrow> Some \<lparr> dict = d, key = k \<rparr>
      | _ \<Rightarrow> None)"

definition example_runtime :: "string runtime" where
  "example_runtime =
     \<lparr> remote = example_remote, handle_response = example_handle_response,
       format_value = example_format_value, validate_user = example_validate_user \<rparr>"

definition other_runtime :: "string runtime" where
  "other_runtime =
     \<lparr> remote = other_remote, handle_response = example_handle_response,
       format_value = example_format_value, validate_user = example_validate_user \<rparr>"

definition example_user :: "string UserCreate" where
  "example_user = \<lparr> dict = [(''key'', PyVal ''u9'')], key = ''u9'' \<rparr>"

fun example_response_json :: "httpx_response \<Rightarrow> error + string" where
  "example_response_json response =
     (if content response = [] then Inl (LibraryError ''JSONDecodeError'')
      else Inr (content response))"

fun example_parse_obj :: "string \<Rightarrow> error + string" where
  "example_parse_obj j = Inr j"

definition example_codec :: "(string, string, string) codec" where
  "example_codec =
     \<lparr> response_json = example_response_json, parse_obj_200 = example_parse_obj,
       parse_obj_422 = example_parse_obj \<rparr>"

definition example_client :: "nat Client" where
  "example_client =
     \<lparr> base_url = ''https://api.permit.io'', verify_ssl = True,
       get_headers = [(''Authorization'', ''Bearer permit_key_x'')], get_cookies = [],
       get_timeout = 5 \<rparr>"

fun example_httpx :: "bool \<times> (nat, string pyval pydict) httpx_kwargs \<Rightarrow> error + httpx_response"
  where
  "example_httpx q = Inr (example_response 200)"


section \<open>Unfolding the model\<close>

lemmas prog_defs = returns_def raise_def await_def http_send_def from_result_def

lemmas outcome_defs = state_after_def sent_def result_def

lemmas client_defs =
  build_http_client_def SimpleHttpClient_request_def SimpleHttpClient_get_def
  SimpleHttpClient_post_def SimpleHttpClient_put_def SimpleHttpClient_patch_def
  SimpleHttpClient_delete_def

lemmas UsersApi_defs =
  UsersApi_list_def UsersApi_get_def UsersApi_get_by_key_def UsersApi_get_by_id_def
  UsersApi_create_def UsersApi_update_def UsersApi_sync_def UsersApi_delete_def
  UsersApi_assign_role_def UsersApi_unassign_role_def UsersApi_get_assigned_roles_def

lemmas UsersApi_func_defs =
  UsersApi_users_def UsersApi_role_assignments_def
  UsersApi_list_func_def UsersApi_get_func_def UsersApi_get_by_key_func_def
  UsersApi_get_by_id_func_def UsersApi_create_func_def UsersApi_update_func_def
  UsersApi_sync_func_def UsersApi_delete_func_def UsersApi_assign_role_func_def
  UsersApi_unassign_role_func_def UsersApi_get_assigned_roles_func_def

lemmas TenantsApi_defs =
  TenantsApi_list_def TenantsApi_list_tenant_users_def TenantsApi_get_def
  TenantsApi_get_by_key_def TenantsApi_get_by_id_def TenantsApi_create_def
  TenantsApi_update_def TenantsApi_delete_def TenantsApi_delete_tenant_user_def

lemmas TenantsApi_func_defs =
  TenantsApi_list_func_def TenantsApi_list_tenant_users_func_def TenantsApi_get_func_def
  TenantsApi_get_by_key_func_def TenantsApi_get_by_id_func_def TenantsApi_create_func_def
  TenantsApi_update_func_def TenantsApi_delete_func_def TenantsApi_delete_tenant_user_func_def

lemmas EnvironmentsApi_defs =
  EnvironmentsApi_list_def EnvironmentsApi_get_def EnvironmentsApi_get_by_key_def
  EnvironmentsApi_get_by_id_def EnvironmentsApi_get_stats_def EnvironmentsApi_get_api_key_def
  EnvironmentsApi_create_def EnvironmentsApi_update_def EnvironmentsApi_copy_def
  EnvironmentsApi_delete_def

lemmas EnvironmentsApi_func_defs =
  EnvironmentsApi_list_func_def EnvironmentsApi_get_func_def
  EnvironmentsApi_get_by_key_func_def EnvironmentsApi_get_by_id_func_def
  EnvironmentsApi_get_stats_func_def EnvironmentsApi_get_api_key_func_def
  EnvironmentsApi_create_func_def EnvironmentsApi_update_func_def
  EnvironmentsApi_copy_func_def EnvironmentsApi_delete_func_def

lemmas validate_defs = validate_arguments_def validate_arguments_union_def validated_user_def

lemmas example_defs =
  example_config_def example_state_def example_response_def example_runtime_def
  other_runtime_def example_user_def example_codec_def example_client_def

section \<open>The guard\<close>

lemma ensure_context_mismatch:
  "api_key_level (api_context (permit_config s)) \<noteq> call_level \<Longrightarrow>
   ensure_context call_level func s = (s, [], Inl PermitContextError)"
  by (simp add: ensure_context_def raise_def)

lemma ensure_context_match:
  "api_key_level (api_context (permit_config s)) = call_level \<Longrightarrow>
   ensure_context call_level func s = func s"
  by (simp add: ensure_context_def)

lemma ensure_context_twice:
  "ensure_context call_level (ensure_context call_level func) = ensure_context call_level func"
  by (rule ext) (simp add: ensure_context_def)

lemma UsersApi_invoke_guarded:
  "UsersApi_invoke rt c =
     ensure_context ENVIRONMENT_LEVEL_API_KEY (validate_arguments (UsersApi_func rt c))"
  by (cases c) (simp_all add: UsersApi_defs validate_arguments_def)

lemma TenantsApi_invoke_guarded:
  "TenantsApi_invoke rt self c = ensure_context ENVIRONMENT_LEVEL_API_KEY (TenantsApi_func rt self c)"
  by (cases c) (simp_all add: TenantsApi_defs)

lemma EnvironmentsApi_invoke_guarded:
  "EnvironmentsApi_invoke rt self c =
     ensure_context PROJECT_LEVEL_API_KEY (validate_arguments (EnvironmentsApi_func rt self c))"
  by (cases c) (simp_all add: EnvironmentsApi_defs)

text \<open>
  C1. Every public method of \<open>UsersApi\<close>, \<open>TenantsApi\<close> and \<open>EnvironmentsApi\<close> is under
  the guard with the level of its class (environment level for users and tenants, project
  level for environments). When the configured level is not the required one, the call
  ends with \<open>PermitContextError\<close>, has issued no request and has left the state (the
  configuration and the caller's dicts) as it was; when it is, the call is the wrapped
  function run on that state.
\<close>

theorem ensure_context_guards_every_method:
  "(api_key_level (api_context (permit_config s)) \<noteq> ENVIRONMENT_LEVEL_API_KEY \<longrightarrow>
      UsersApi_invoke rt uc s = (s, [], Inl PermitContextError) \<and>
      TenantsApi_invoke rt tself tc s = (s, [], Inl PermitContextError)) \<and>
   (api_key_level (api_context (permit_config s)) = ENVIRONMENT_LEVEL_API_KEY \<longrightarrow>
      UsersApi_invoke rt uc s = UsersApi_func rt uc s \<and>
      TenantsApi_invoke rt tself tc s = TenantsApi_func rt tself tc s) \<and>
   (api_key_level (api_context (permit_config s)) \<noteq> PROJECT_LEVEL_API_KEY \<longrightarrow>
      EnvironmentsApi_invoke rt eself ec s = (s, [], Inl PermitContextError)) \<and>
   (api_key_level (api_context (permit_config s)) = PROJECT_LEVEL_API_KEY \<longrightarrow>
      EnvironmentsApi_invoke rt eself ec s = EnvironmentsApi_func rt eself ec s)"
  by (simp add: UsersApi_invoke_guarded TenantsApi_invoke_guarded EnvironmentsApi_invoke_guarded
        validate_arguments_def ensure_context_mismatch ensure_context_match)

theorem ensure_context_guards_every_method_witness:
  "UsersApi_invoke example_runtime (U_sync (User_dict 1))
       (example_state PROJECT_LEVEL_API_KEY ''p'' ''e'')
     = (example_state PROJECT_LEVEL_API_KEY ''p'' ''e'', [], Inl PermitContextError) \<and>
   TenantsApi_invoke example_runtime
       (TenantsApi_init (example_config ENVIRONMENT_LEVEL_API_KEY ''p'' ''e'')) (T_get ''t1'')
       (example_state PROJECT_LEVEL_API_KEY ''p'' ''e'')
     = (example_state PROJECT_LEVEL_API_KEY ''p'' ''e'', [], Inl PermitContextError) \<and>
   sent (EnvironmentsApi_invoke example_runtime
       (EnvironmentsApi_init (example_config PROJECT_LEVEL_API_KEY ''p'' ''e''))
       (E_get ''p'' ''e'') (example_state PROJECT_LEVEL_API_KEY ''p'' ''e''))
     = [\<lparr> rq_method = GET, rq_url = ''https://api.permit.io/v2/projects/p/envs/e'',
          rq_params = None, rq_json = None \<rparr>] \<and>
   EnvironmentsApi_invoke example_runtime
       (EnvironmentsApi_init (example_config PROJECT_LEVEL_API_KEY ''p'' ''e''))
       (E_get ''p'' ''e'') (example_state ENVIRONMENT_LEVEL_API_KEY ''p'' ''e'')
     = (example_state ENVIRONMENT_LEVEL_API_KEY ''p'' ''e'', [], Inl PermitContextError) \<and>
   result (UsersApi_invoke example_runtime (U_sync (User_dict 1))
       (example_state ENVIRONMENT_LEVEL_API_KEY ''p'' ''e''))
     = Inl (KeyError ''required 'key' in input dictionary'') \<and>
   sent (TenantsApi_invoke example_runtime
       (TenantsApi_init (example_config ENVIRONMENT_LEVEL_API_KEY ''p'' ''e'')) (T_get ''t1'')
       (example_state ENVIRONMENT_LEVEL_API_KEY ''p'' ''e''))
     = [\<lparr> rq_method = GET, rq_url = ''https://api.permit.io/v2/facts/p/e/tenants/t1'',
          rq_params = None, rq_json = None \<rparr>]"
  using
    ensure_context_guards_every_method
      [of "example_state PROJECT_LEVEL_API_KEY ''p'' ''e''" example_runtime
          "U_sync (User_dict 1)"
          "TenantsApi_init (example_config ENVIRONMENT_LEVEL_API_KEY ''p'' ''e'')" "T_get ''t1''"
          "EnvironmentsApi_init (example_config PROJECT_LEVEL_API_KEY ''p'' ''e'')"
          "E_get ''p'' ''e''"]
    ensure_context_guards_every_method
      [of "example_state ENVIRONMENT_LEVEL_API_KEY ''p'' ''e''" example_runtime
          "U_sync (User_dict 1)"
          "TenantsApi_init (example_config ENVIRONMENT_LEVEL_API_KEY ''p'' ''e'')" "T_get ''t1''"
          "EnvironmentsApi_init (example_config PROJECT_LEVEL_API_KEY ''p'' ''e'')"
          "E_get ''p'' ''e''"]
  by (simp add: example_defs outcome_defs prog_defs client_defs dict_pop_def validate_defs
        UsersApi_func_defs TenantsApi_func_defs EnvironmentsApi_func_defs TenantsApi_init_def
        EnvironmentsApi_init_def)

section \<open>The aliases\<close>

text \<open>
  C9. \<open>get_by_key\<close> and \<open>get_by_id\<close> of the three classes are the same calls as \<open>get\<close>:
  on every state they issue the same requests, end with the same result and leave the
  same state.
\<close>

theorem get_aliases_equal_get:
  "UsersApi_get_by_key rt user_key = UsersApi_get rt user_key \<and>
   UsersApi_get_by_id rt user_id = UsersApi_get rt user_id \<and>
   TenantsApi_get_by_key rt tself tenant_key = TenantsApi_get rt tself tenant_key \<and>
   TenantsApi_get_by_id rt tself tenant_id = TenantsApi_get rt tself tenant_id \<and>
   EnvironmentsApi_get_by_key rt eself project_key environment_key
     = EnvironmentsApi_get rt eself project_key environment_key \<and>
   EnvironmentsApi_get_by_id rt eself project_id environment_id
     = EnvironmentsApi_get rt eself project_id environment_id"
  by (simp add: UsersApi_get_by_key_def UsersApi_get_by_id_def UsersApi_get_by_key_func_def
        UsersApi_get_by_id_func_def UsersApi_get_def
        TenantsApi_get_by_key_def TenantsApi_get_by_id_def TenantsApi_get_by_key_func_def
        TenantsApi_get_by_id_func_def TenantsApi_get_def
        EnvironmentsApi_get_by_key_def EnvironmentsApi_get_by_id_def
        EnvironmentsApi_get_by_key_func_def EnvironmentsApi_get_by_id_func_def
        EnvironmentsApi_get_def validate_arguments_def ensure_context_twice)

section \<open>The response unmarshaller of the generated endpoints\<close>

lemmas parse_defs =
  get_data_for_user_parse_response_def create_resource_parse_response_def
  get_data_for_user_build_response_def create_resource_build_response_def try_bind_def

text \<open>
  C3. \<open>_parse_response\<close> of get\_data\_for\_user and of create\_resource: on status 200 it
  returns the success model that \<open>parse_obj\<close> makes of the response's JSON, on status 422
  the \<open>HTTPValidationError\<close> model made of it, and \<open>None\<close> on every other status.
  \<open>_build_response\<close> returns a \<open>Response\<close> with that parsed value and the status code,
  content and headers of the response it was given.
\<close>

theorem parse_response_by_status_code:
  "(status_code response = 200 \<longrightarrow> response_json cdc response = Inr j \<longrightarrow>
      parse_obj_200 cdc j = Inr m \<longrightarrow>
        get_data_for_user_parse_response cdc response = Inr (Some (Model_200 m)) \<and>
        create_resource_parse_response cdc response = Inr (Some (Model_200 m))) \<and>
   (status_code response = 422 \<longrightarrow> response_json cdc response = Inr j \<longrightarrow>
      parse_obj_422 cdc j = Inr e \<longrightarrow>
        get_data_for_user_parse_response cdc response = Inr (Some (Model_422 e)) \<and>
        create_resource_parse_response cdc response = Inr (Some (Model_422 e))) \<and>
   (status_code response \<noteq> 200 \<longrightarrow> status_code response \<noteq> 422 \<longrightarrow>
        get_data_for_user_parse_response cdc response = Inr None \<and>
        create_resource_parse_response cdc response = Inr None) \<and>
   (get_data_for_user_parse_response cdc response = Inr p \<longrightarrow>
        get_data_for_user_build_response cdc response =
          Inr \<lparr> status_code = status_code response, content = content response,
                headers = headers response, parsed = p \<rparr>) \<and>
   (create_resource_parse_response cdc response = Inr p \<longrightarrow>
        create_resource_build_response cdc response =
          Inr \<lparr> status_code = status_code response, content = content response,
                headers = headers response, parsed = p \<rparr>)"
  by (simp add: parse_defs)

theorem parse_response_by_status_code_witness:
  "get_data_for_user_parse_response example_codec (example_response 200)
     = Inr (Some (Model_200 ''{}'')) \<and>
   create_resource_parse_response example_codec (example_response 422)
     = Inr (Some (Model_422 ''{}'')) \<and>
   get_data_for_user_parse_response example_codec (example_response 500) = Inr None \<and>
   create_resource_parse_response example_codec (example_response 201) = Inr None \<and>
   get_data_for_user_build_response example_codec (example_response 200)
     = Inr \<lparr> status_code = 200, content = ''{}'', headers = [],
             parsed = Some (Model_200 ''{}'') \<rparr> \<and>
   create_resource_build_response example_codec (example_response 201)
     = Inr \<lparr> status_code = 201, content = ''{}'', headers = [], parsed = None \<rparr>"
  using
    parse_response_by_status_code
      [of "example_response 200" example_codec "''{}''" "''{}''" "''{}''"
          "Some (Model_200 ''{}'')"]
    parse_response_by_status_code
      [of "example_response 422" example_codec "''{}''" "''{}''" "''{}''"
          "Some (Model_422 ''{}'')"]
    parse_response_by_status_code
      [of "example_response 500" example_codec "''{}''" "''{}''" "''{}''" None]
    parse_response_by_status_code
      [of "example_response 201" example_codec "''{}''" "''{}''" "''{}''" None]
  by (simp add: example_defs)

section \<open>\<open>UsersApi.sync\<close>\<close>

lemma delete_key_absent: "k \<notin> fst ` set (AList.delete k d)"
  by (rule delete_notin_dom)

lemma sync_func_dict_no_key:
  "map_of (dict_at s addr) ''key'' = None \<Longrightarrow>
   UsersApi_sync_func rt (User_dict addr) s
     = (s, [], Inl (KeyError ''required 'key' in input dictionary''))"
  by (simp add: UsersApi_sync_func_def dict_pop_def prog_defs)

lemma sync_func_dict_key_None:
  "map_of (dict_at s addr) ''key'' = Some PyNone \<Longrightarrow>
   UsersApi_sync_func rt (User_dict addr) s
     = (s\<lparr> dict_at := (dict_at s)(addr := AList.delete ''key'' (dict_at s addr)) \<rparr>, [],
        Inl (KeyError ''required 'key' in input dictionary''))"
  by (simp add: UsersApi_sync_func_def dict_pop_def prog_defs)

lemma sync_func_dict_key:
  "map_of (dict_at s addr) ''key'' = Some (PyVal v) \<Longrightarrow>
   UsersApi_sync_func rt (User_dict addr) s
     = (s\<lparr> dict_at := (dict_at s)(addr := AList.delete ''key'' (dict_at s addr)) \<rparr>,
        [\<lparr> rq_method = PUT,
           rq_url = api_url (permit_config s) @ ''/v2/facts/''
                      @ project (api_context (permit_config s)) @ ''/''
                      @ environment (api_context (permit_config s)) @ ''/users''
                      @ ''/'' @ format_value rt v,
           rq_params = None,
           rq_json = Some (JsonDict (AList.delete ''key'' (dict_at s addr))) \<rparr>],
        try_bind
          (remote rt
             \<lparr> rq_method = PUT,
               rq_url = api_url (permit_config s) @ ''/v2/facts/''
                          @ project (api_context (permit_config s)) @ ''/''
                          @ environment (api_context (permit_config s)) @ ''/users''
                          @ ''/'' @ format_value rt v,
               rq_params = None,
               rq_json = Some (JsonDict (AList.delete ''key'' (dict_at s addr))) \<rparr>)
          (handle_response rt (Some UserRead)))"
  by (simp add: UsersApi_sync_func_def UsersApi_users_def dict_pop_def dict_read_def
        prog_defs client_defs try_bind_def split: sum.splits)

lemma sync_func_model:
  "UsersApi_sync_func rt (User_model m) s
     = (s,
        [\<lparr> rq_method = PUT,
           rq_url = api_url (permit_config s) @ ''/v2/facts/''
                      @ project (api_context (permit_config s)) @ ''/''
                      @ environment (api_context (permit_config s)) @ ''/users''
                      @ ''/'' @ key m,
           rq_params = None, rq_json = Some (JsonUserCreate m) \<rparr>],
        try_bind
          (remote rt
             \<lparr> rq_method = PUT,
               rq_url = api_url (permit_config s) @ ''/v2/facts/''
                          @ project (api_context (permit_config s)) @ ''/''
                          @ environment (api_context (permit_config s)) @ ''/users''
                          @ ''/'' @ key m,
               rq_params = None, rq_json = Some (JsonUserCreate m) \<rparr>)
          (handle_response rt (Some UserRead)))"
  by (simp add: UsersApi_sync_func_def UsersApi_users_def prog_defs client_defs try_bind_def
        Let_def split: sum.splits)

lemma map_of_key_cases:
  "map_of d k = None \<or> map_of d k = Some PyNone \<or> (\<exists>v. map_of d k = Some (PyVal v))"
  by (cases "map_of d k") (auto intro: pyval.exhaust)

text \<open>
  C7, as the code has it. \<open>validate_arguments\<close> stands between the caller and \<open>sync\<close>: a
  dict that validates as a \<open>UserCreate\<close> reaches the function as a model, any other dict
  as the caller's dict. The function on a dict: without a \<open>"key"\<close> entry, or with one whose
  value is \<open>None\<close>, it raises \<open>KeyError\<close> and has issued no request. Otherwise the entry
  is removed from that dict object (no other dict and nothing of the configuration
  changes), and one PUT goes to the users path followed by the key, its body being that
  dict, which has no \<open>"key"\<close>; no body that the function sends for a dict ever has one.
  The function on a \<open>UserCreate\<close> model: the state stays as it is (the caller's dict
  included, when the model was made of one) and one PUT goes to the users path followed by
  the model's \<open>key\<close>, its body being the model. When the guard of C1 lets the call
  through, the method on a dict that does not validate is the function on that dict, the
  method on a dict that validates is the function on the model made of it, and the method
  on a model is the function on that model.
\<close>

theorem sync_on_validated_argument:
  "(map_of (dict_at s addr) ''key'' = None \<or> map_of (dict_at s addr) ''key'' = Some PyNone \<longrightarrow>
      result (UsersApi_sync_func rt (User_dict addr) s)
        = Inl (KeyError ''required 'key' in input dictionary'') \<and>
      sent (UsersApi_sync_func rt (User_dict addr) s) = []) \<and>
   (map_of (dict_at s addr) ''key'' = Some (PyVal v) \<longrightarrow>
      state_after (UsersApi_sync_func rt (User_dict addr) s)
        = s\<lparr> dict_at := (dict_at s)(addr := AList.delete ''key'' (dict_at s addr)) \<rparr> \<and>
      sent (UsersApi_sync_func rt (User_dict addr) s)
        = [\<lparr> rq_method = PUT,
             rq_url = api_url (permit_config s) @ ''/v2/facts/''
                        @ project (api_context (permit_config s)) @ ''/''
                        @ environment (api_context (permit_config s)) @ ''/users''
                        @ ''/'' @ format_value rt v,
             rq_params = None,
             rq_json = Some (JsonDict (AList.delete ''key'' (dict_at s addr))) \<rparr>]) \<and>
   (\<forall>q \<in> set (sent (UsersApi_sync_func rt (User_dict addr) s)).
      \<forall>body. rq_json q = Some (JsonDict body) \<longrightarrow> ''key'' \<notin> fst ` set body) \<and>
   state_after (UsersApi_sync_func rt (User_model m) s) = s \<and>
   sent (UsersApi_sync_func rt (User_model m) s)
     = [\<lparr> rq_method = PUT,
          rq_url = api_url (permit_config s) @ ''/v2/facts/''
                     @ project (api_context (permit_config s)) @ ''/''
                     @ environment (api_context (permit_config s)) @ ''/users''
                     @ ''/'' @ key m,
          rq_params = None, rq_json = Some (JsonUserCreate m) \<rparr>] \<and>
   (api_key_level (api_context (permit_config s)) = ENVIRONMENT_LEVEL_API_KEY \<longrightarrow>
      validate_user rt (dict_at s addr) = None \<longrightarrow>
        UsersApi_sync rt (User_dict addr) s = UsersApi_sync_func rt (User_dict addr) s) \<and>
   (api_key_level (api_context (permit_config s)) = ENVIRONMENT_LEVEL_API_KEY \<longrightarrow>
      validate_user rt (dict_at s addr) = Some m' \<longrightarrow>
        UsersApi_sync rt (User_dict addr) s = UsersApi_sync_func rt (User_model m') s) \<and>
   (api_key_level (api_context (permit_config s)) = ENVIRONMENT_LEVEL_API_KEY \<longrightarrow>
      UsersApi_sync rt (User_model m) s = UsersApi_sync_func rt (User_model m) s)"
proof -
  have no_key_in_body:
    "\<forall>q \<in> set (sent (UsersApi_sync_func rt (User_dict addr) s)).
       \<forall>body. rq_json q = Some (JsonDict body) \<longrightarrow> ''key'' \<notin> fst ` set body"
  proof -
    consider
        (absent) "map_of (dict_at s addr) ''key'' = None"
      | (none) "map_of (dict_at s addr) ''key'' = Some PyNone"
      | (val) w where "map_of (dict_at s addr) ''key'' = Some (PyVal w)"
      using map_of_key_cases [of "dict_at s addr" "''key''"] by auto
    then show ?thesis
    proof cases
      case absent
      then show ?thesis by (simp add: sync_func_dict_no_key sent_def)
    next
      case none
      then show ?thesis by (simp add: sync_func_dict_key_None sent_def)
    next
      case val
      then show ?thesis
        using delete_key_absent [of "''key''" "dict_at s addr"]
        by (simp add: sync_func_dict_key sent_def)
    qed
  qed
  have handed_on:
    "api_key_level (api_context (permit_config s)) = ENVIRONMENT_LEVEL_API_KEY \<longrightarrow>
       validate_user rt (dict_at s addr) = None \<longrightarrow>
         UsersApi_sync rt (User_dict addr) s = UsersApi_sync_func rt (User_dict addr) s"
    by (simp add: UsersApi_sync_def validate_defs ensure_context_match)
  have made_model:
    "api_key_level (api_context (permit_config s)) = ENVIRONMENT_LEVEL_API_KEY \<longrightarrow>
       validate_user rt (dict_at s addr) = Some m' \<longrightarrow>
         UsersApi_sync rt (User_dict addr) s = UsersApi_sync_func rt (User_model m') s"
    by (simp add: UsersApi_sync_def validate_defs ensure_context_match)
  have given_model:
    "api_key_level (api_context (permit_config s)) = ENVIRONMENT_LEVEL_API_KEY \<longrightarrow>
       UsersApi_sync rt (User_model m) s = UsersApi_sync_func rt (User_model m) s"
    by (simp add: UsersApi_sync_def validate_defs ensure_context_match)
  have raises:
    "map_of (dict_at s addr) ''key'' = None \<or> map_of (dict_at s addr) ''key'' = Some PyNone \<longrightarrow>
       result (UsersApi_sync_func rt (User_dict addr) s)
         = Inl (KeyError ''required 'key' in input dictionary'') \<and>
       sent (UsersApi_sync_func rt (User_dict addr) s) = []"
  proof
    assume "map_of (dict_at s addr) ''key'' = None \<or> map_of (dict_at s addr) ''key'' = Some PyNone"
    then show
      "result (UsersApi_sync_func rt (User_dict addr) s)
         = Inl (KeyError ''required 'key' in input dictionary'') \<and>
       sent (UsersApi_sync_func rt (User_dict addr) s) = []"
    proof
      assume "map_of (dict_at s addr) ''key'' = None"
      then show ?thesis by (simp add: sync_func_dict_no_key outcome_defs)
    next
      assume "map_of (dict_at s addr) ''key'' = Some PyNone"
      then show ?thesis by (simp add: sync_func_dict_key_None outcome_defs)
    qed
  qed
  have pops:
    "map_of (dict_at s addr) ''key'' = Some (PyVal v) \<longrightarrow>
       state_after (UsersApi_sync_func rt (User_dict addr) s)
         = s\<lparr> dict_at := (dict_at s)(addr := AList.delete ''key'' (dict_at s addr)) \<rparr> \<and>
       sent (UsersApi_sync_func rt (User_dict addr) s)
         = [\<lparr> rq_method = PUT,
              rq_url = api_url (permit_config s) @ ''/v2/facts/''
                         @ project (api_context (permit_config s)) @ ''/''
                         @ environment (api_context (permit_config s)) @ ''/users''
                         @ ''/'' @ format_value rt v,
              rq_params = None,
              rq_json = Some (JsonDict (AList.delete ''key'' (dict_at s addr))) \<rparr>]"
    by (simp add: sync_func_dict_key outcome_defs)
  have model_state: "state_after (UsersApi_sync_func rt (User_model m) s) = s"
    by (simp add: sync_func_model outcome_defs)
  have model_sent:
    "sent (UsersApi_sync_func rt (User_model m) s)
       = [\<lparr> rq_method = PUT,
            rq_url = api_url (permit_config s) @ ''/v2/facts/''
                       @ project (api_context (permit_config s)) @ ''/''
                       @ environment (api_context (permit_config s)) @ ''/users''
                       @ ''/'' @ key m,
            rq_params = None, rq_json = Some (JsonUserCreate m) \<rparr>]"
    by (simp add: sync_func_model outcome_defs)
  show ?thesis
    by (intro conjI raises pops no_key_in_body model_state model_sent handed_on made_model
          given_model)
qed

theorem sync_on_validated_argument_witness:
  "result (UsersApi_sync example_runtime (User_dict 1)
             (example_state ENVIRONMENT_LEVEL_API_KEY ''p'' ''e''))
     = Inl (KeyError ''required 'key' in input dictionary'') \<and>
   sent (UsersApi_sync example_runtime (User_dict 2)
           (example_state ENVIRONMENT_LEVEL_API_KEY ''p'' ''e'')) = [] \<and>
   dict_at (state_after (UsersApi_sync example_runtime (User_dict 3)
                           (example_state ENVIRONMENT_LEVEL_API_KEY ''p'' ''e''))) 3
     = [(''attributes'', PyVal ''vip'')] \<and>
   sent (UsersApi_sync example_runtime (User_dict 3)
           (example_state ENVIRONMENT_LEVEL_API_KEY ''p'' ''e''))
     = [\<lparr> rq_method = PUT, rq_url = ''https://api.permit.io/v2/facts/p/e/users/u4'',
          rq_params = None,
          rq_json = Some (JsonDict [(''attributes'', PyVal ''vip'')]) \<rparr>] \<and>
   UsersApi_sync example_runtime (User_dict 0)
       (example_state ENVIRONMENT_LEVEL_API_KEY ''p'' ''e'')
     = UsersApi_sync_func example_runtime
         (User_model \<lparr> dict = [(''key'', PyVal ''u1''), (''email'', PyVal ''u1@example.com'')],
                       key = ''u1'' \<rparr>)
         (example_state ENVIRONMENT_LEVEL_API_KEY ''p'' ''e'') \<and>
   sent (UsersApi_sync example_runtime (User_model example_user)
           (example_state ENVIRONMENT_LEVEL_API_KEY ''p'' ''e''))
     = [\<lparr> rq_method = PUT, rq_url = ''https://api.permit.io/v2/facts/p/e/users/u9'',
          rq_params = None, rq_json = Some (JsonUserCreate example_user) \<rparr>]"
  using
    sync_on_validated_argument
      [of "example_state ENVIRONMENT_LEVEL_API_KEY ''p'' ''e''" 1 example_runtime "''u4''"
          example_user example_user]
    sync_on_validated_argument
      [of "example_state ENVIRONMENT_LEVEL_API_KEY ''p'' ''e''" 2 example_runtime "''u4''"
          example_user example_user]
    sync_on_validated_argument
      [of "example_state ENVIRONMENT_LEVEL_API_KEY ''p'' ''e''" 3 example_runtime "''u4''"
          example_user example_user]
    sync_on_validated_argument
      [of "example_state ENVIRONMENT_LEVEL_API_KEY ''p'' ''e''" 0 example_runtime "''u1''"
          example_user
          "\<lparr> dict = [(''key'', PyVal ''u1''), (''email'', PyVal ''u1@example.com'')],
             key = ''u1'' \<rparr>"]
  by (simp add: example_defs)

text \<open>
  The claim as the spec states it (on a dict with a key, the entry is removed from the
  caller's dict and the body sent has no \<open>"key"\<close>) meets a dict that validates as a
  \<open>UserCreate\<close>: the caller's dict is as it was, key included, and the body is the model
  made of it, key included.
\<close>

theorem sync_keeps_validated_dict:
  "map_of (dict_at (example_state ENVIRONMENT_LEVEL_API_KEY ''p'' ''e'') 0) ''key''
     = Some (PyVal ''u1'') \<and>
   state_after (UsersApi_sync example_runtime (User_dict 0)
                  (example_state ENVIRONMENT_LEVEL_API_KEY ''p'' ''e''))
     = example_state ENVIRONMENT_LEVEL_API_KEY ''p'' ''e'' \<and>
   sent (UsersApi_sync example_runtime (User_dict 0)
           (example_state ENVIRONMENT_LEVEL_API_KEY ''p'' ''e''))
     = [\<lparr> rq_method = PUT, rq_url = ''https://api.permit.io/v2/facts/p/e/users/u1'',
          rq_params = None,
          rq_json = Some (JsonUserCreate
                      \<lparr> dict = [(''key'', PyVal ''u1''), (''email'', PyVal ''u1@example.com'')],
                        key = ''u1'' \<rparr>) \<rparr>]"
  by (simp add: example_defs outcome_defs UsersApi_sync_def validate_defs ensure_context_match
        sync_func_model)

section \<open>What a call sends\<close>

lemma request_outcome:
  "SimpleHttpClient_request rt client meth url mdl params json s
     = (s,
        [\<lparr> rq_method = meth, rq_url = client_base_url client @ url, rq_params = params,
           rq_json = json \<rparr>],
        try_bind
          (remote rt
             \<lparr> rq_method = meth, rq_url = client_base_url client @ url, rq_params = params,
               rq_json = json \<rparr>)
          (handle_response rt mdl))"
  by (simp add: SimpleHttpClient_request_def prog_defs try_bind_def split: sum.splits)

lemmas method_defs =
  SimpleHttpClient_get_def SimpleHttpClient_post_def SimpleHttpClient_put_def
  SimpleHttpClient_patch_def SimpleHttpClient_delete_def

lemma UsersApi_users_outcome:
  "await UsersApi_users f s
     = f (build_http_client (permit_config s)
            (''/v2/facts/'' @ project (api_context (permit_config s)) @ ''/''
               @ environment (api_context (permit_config s)) @ ''/users'')) s"
  by (simp add: UsersApi_users_def await_def returns_def split: prod.splits)

lemma UsersApi_role_assignments_outcome:
  "await UsersApi_role_assignments f s
     = f (build_http_client (permit_config s)
            (''/v2/facts/'' @ project (api_context (permit_config s)) @ ''/''
               @ environment (api_context (permit_config s)) @ ''/role_assignments'')) s"
  by (simp add: UsersApi_role_assignments_def await_def returns_def split: prod.splits)

lemmas UsersApi_plain_func_defs =
  UsersApi_list_func_def UsersApi_get_func_def UsersApi_get_by_key_func_def
  UsersApi_get_by_id_func_def UsersApi_create_func_def UsersApi_update_func_def
  UsersApi_delete_func_def UsersApi_assign_role_func_def UsersApi_unassign_role_func_def
  UsersApi_get_assigned_roles_func_def

lemmas call_simps =
  UsersApi_users_outcome UsersApi_role_assignments_outcome request_outcome method_defs
  validate_arguments_def ensure_context_match Let_def

lemma UsersApi_func_sync:
  "validate_arguments_union rt (UsersApi_sync_func rt) user s
     = UsersApi_sync_func rt (validated_user rt user s) s"
  by (simp add: validate_arguments_union_def)

lemma UsersApi_func_awaits:
  assumes "api_key_level (api_context (permit_config s)) = ENVIRONMENT_LEVEL_API_KEY"
    and "\<forall>user addr. c = U_sync user \<longrightarrow> validated_user rt user s = User_dict addr \<longrightarrow>
           (\<exists>v. map_of (dict_at s addr) ''key'' = Some (PyVal v))"
  shows "length (sent (UsersApi_func rt c s)) = 1 \<and>
         result (UsersApi_func rt c s)
           = try_bind (remote rt (hd (sent (UsersApi_func rt c s))))
               (handle_response rt (UsersApi_call_model c))"
proof (cases c)
  case (U_sync user)
  show ?thesis
  proof (cases "validated_user rt user s")
    case (User_model m)
    with U_sync show ?thesis
      by (simp add: UsersApi_func_sync sync_func_model outcome_defs)
  next
    case (User_dict addr)
    with U_sync assms(2) obtain v where "map_of (dict_at s addr) ''key'' = Some (PyVal v)"
      by auto
    with U_sync User_dict show ?thesis
      by (simp add: UsersApi_func_sync sync_func_dict_key outcome_defs)
  qed
qed (simp_all add: assms(1) UsersApi_plain_func_defs UsersApi_get_def call_simps outcome_defs)

lemma TenantsApi_func_awaits:
  assumes "api_key_level (api_context (permit_config s)) = ENVIRONMENT_LEVEL_API_KEY"
  shows "length (sent (TenantsApi_func rt self c s)) = 1 \<and>
         result (TenantsApi_func rt self c s)
           = try_bind (remote rt (hd (sent (TenantsApi_func rt self c s))))
               (handle_response rt (TenantsApi_call_model c))"
  by (cases c)
     (simp_all add: assms TenantsApi_func_defs TenantsApi_get_def call_simps outcome_defs)

lemma EnvironmentsApi_func_awaits:
  assumes "api_key_level (api_context (permit_config s)) = PROJECT_LEVEL_API_KEY"
  shows "length (sent (EnvironmentsApi_func rt self c s)) = 1 \<and>
         result (EnvironmentsApi_func rt self c s)
           = try_bind (remote rt (hd (sent (EnvironmentsApi_func rt self c s))))
               (handle_response rt (EnvironmentsApi_call_model c))"
  by (cases c)
     (simp_all add: assms EnvironmentsApi_func_defs EnvironmentsApi_get_def call_simps
        outcome_defs)

lemma UsersApi_func_keyless:
  assumes "validated_user rt user s = User_dict addr"
    and "map_of (dict_at s addr) ''key'' = None \<or> map_of (dict_at s addr) ''key'' = Some PyNone"
  shows "sent (UsersApi_func rt (U_sync user) s) = [] \<and>
         result (UsersApi_func rt (U_sync user) s)
           = Inl (KeyError ''required 'key' in input dictionary'')"
  using assms(2)
proof
  assume "map_of (dict_at s addr) ''key'' = None"
  with assms(1) show ?thesis
    by (simp add: UsersApi_func_sync sync_func_dict_no_key outcome_defs)
next
  assume "map_of (dict_at s addr) ''key'' = Some PyNone"
  with assms(1) show ?thesis
    by (simp add: UsersApi_func_sync sync_func_dict_key_None outcome_defs)
qed

lemma http_send_then:
  "await (http_send h q) (\<lambda>response. from_result (f response)) s
     = (s, [q], try_bind (h q) f)"
  by (simp add: prog_defs try_bind_def split: sum.splits)

lemma await_then_returns:
  "m s = (s', qs, r) \<Longrightarrow> await m (\<lambda>a. returns (g a)) s = (s', qs, map_sum id g r)"
  by (cases r) (simp_all add: await_def returns_def)

lemmas openapi_detailed_defs =
  get_data_for_user_sync_detailed_def get_data_for_user_asyncio_detailed_def
  create_resource_sync_detailed_def create_resource_asyncio_detailed_def

lemmas openapi_defs =
  get_data_for_user_sync_def get_data_for_user_asyncio_def
  create_resource_sync_def create_resource_asyncio_def

lemma get_data_for_user_detailed_outcome:
  "get_data_for_user_sync_detailed h cdc org_id proj_id env_id user_id client s
     = (s, [(verify_ssl client, get_data_for_user_get_kwargs org_id proj_id env_id user_id client)],
        try_bind
          (h (verify_ssl client,
              get_data_for_user_get_kwargs org_id proj_id env_id user_id client))
          (get_data_for_user_build_response cdc))"
  "get_data_for_user_asyncio_detailed h cdc org_id proj_id env_id user_id client s
     = (s, [(verify_ssl client, get_data_for_user_get_kwargs org_id proj_id env_id user_id client)],
        try_bind
          (h (verify_ssl client,
              get_data_for_user_get_kwargs org_id proj_id env_id user_id client))
          (get_data_for_user_build_response cdc))"
  by (simp_all add: openapi_detailed_defs Let_def http_send_then)

lemma create_resource_detailed_outcome:
  "create_resource_sync_detailed h cdc proj_id env_id client json_body permit_session s
     = (s, [(verify_ssl client,
             create_resource_get_kwargs proj_id env_id client json_body permit_session)],
        try_bind
          (h (verify_ssl client,
              create_resource_get_kwargs proj_id env_id client json_body permit_session))
          (create_resource_build_response cdc))"
  "create_resource_asyncio_detailed h cdc proj_id env_id client json_body permit_session s
     = (s, [(verify_ssl client,
             create_resource_get_kwargs proj_id env_id client json_body permit_session)],
        try_bind
          (h (verify_ssl client,
              create_resource_get_kwargs proj_id env_id client json_body permit_session))
          (create_resource_build_response cdc))"
  by (simp_all add: openapi_detailed_defs Let_def http_send_then)

lemmas openapi_outcomes =
  get_data_for_user_detailed_outcome create_resource_detailed_outcome
  await_then_returns [OF get_data_for_user_detailed_outcome(1)]
  await_then_returns [OF get_data_for_user_detailed_outcome(2)]
  await_then_returns [OF create_resource_detailed_outcome(1)]
  await_then_returns [OF create_resource_detailed_outcome(2)]

section \<open>One request for each call\<close>

text \<open>
  C2, as the code has it. Each of the eight generated endpoint functions issues exactly one
  request, the one its keyword arguments describe, and returns what \<open>_build_response\<close>
  makes of the response to it (\<open>sync\<close> and \<open>asyncio\<close>: the parsed part of that); a raise
  of the transport propagates. A call of a method of the three API classes that the guard
  lets through issues exactly one request and returns what the response handling makes,
  for the model of the method, of the response to that request, with one exception:
  \<open>UsersApi.sync\<close>, when the function receives a dict that has no \<open>"key"\<close>, or \<open>None\<close>
  for it, raises \<open>KeyError\<close> and has issued none.
\<close>

theorem one_request_per_call:
  "sent (get_data_for_user_sync_detailed h cdc org_id proj_id env_id user_id client s0)
     = [(verify_ssl client, get_data_for_user_get_kwargs org_id proj_id env_id user_id client)] \<and>
   result (get_data_for_user_sync_detailed h cdc org_id proj_id env_id user_id client s0)
     = try_bind
         (h (verify_ssl client, get_data_for_user_get_kwargs org_id proj_id env_id user_id client))
         (get_data_for_user_build_response cdc) \<and>
   sent (get_data_for_user_sync h cdc org_id proj_id env_id user_id client s0)
     = [(verify_ssl client, get_data_for_user_get_kwargs org_id proj_id env_id user_id client)] \<and>
   result (get_data_for_user_sync h cdc org_id proj_id env_id user_id client s0)
     = map_sum id parsed
         (try_bind
           (h (verify_ssl client,
               get_data_for_user_get_kwargs org_id proj_id env_id user_id client))
           (get_data_for_user_build_response cdc)) \<and>
   sent (get_data_for_user_asyncio_detailed h cdc org_id proj_id env_id user_id client s0)
     = [(verify_ssl client, get_data_for_user_get_kwargs org_id proj_id env_id user_id client)] \<and>
   result (get_data_for_user_asyncio_detailed h cdc org_id proj_id env_id user_id client s0)
     = try_bind
         (h (verify_ssl client, get_data_for_user_get_kwargs org_id proj_id env_id user_id client))
         (get_data_for_user_build_response cdc) \<and>
   sent (get_data_for_user_asyncio h cdc org_id proj_id env_id user_id client s0)
     = [(verify_ssl client, get_data_for_user_get_kwargs org_id proj_id env_id user_id client)] \<and>
   result (get_data_for_user_asyncio h cdc org_id proj_id env_id user_id client s0)
     = map_sum id parsed
         (try_bind
           (h (verify_ssl client,
               get_data_for_user_get_kwargs org_id proj_id env_id user_id client))
           (get_data_for_user_build_response cdc)) \<and>
   sent (create_resource_sync_detailed h' cdc proj_id env_id client json_body permit_session s0)
     = [(verify_ssl client,
         create_resource_get_kwargs proj_id env_id client json_body permit_session)] \<and>
   result (create_resource_sync_detailed h' cdc proj_id env_id client json_body permit_session s0)
     = try_bind
         (h' (verify_ssl client,
              create_resource_get_kwargs proj_id env_id client json_body permit_session))
         (create_resource_build_response cdc) \<and>
   sent (create_resource_sync h' cdc proj_id env_id client json_body permit_session s0)
     = [(verify_ssl client,
         create_resource_get_kwargs proj_id env_id client json_body permit_session)] \<and>
   result (create_resource_sync h' cdc proj_id env_id client json_body permit_session s0)
     = map_sum id parsed
         (try_bind
           (h' (verify_ssl client,
                create_resource_get_kwargs proj_id env_id client json_body permit_session))
           (create_resource_build_response cdc)) \<and>
   sent (create_resource_asyncio_detailed h' cdc proj_id env_id client json_body permit_session s0)
     = [(verify_ssl client,
         create_resource_get_kwargs proj_id env_id client json_body permit_session)] \<and>
   result (create_resource_asyncio_detailed h' cdc proj_id env_id client json_body permit_session s0)
     = try_bind
         (h' (verify_ssl client,
              create_resource_get_kwargs proj_id env_id client json_body permit_session))
         (create_resource_build_response cdc) \<and>
   sent (create_resource_asyncio h' cdc proj_id env_id client json_body permit_session s0)
     = [(verify_ssl client,
         create_resource_get_kwargs proj_id env_id client json_body permit_session)] \<and>
   result (create_resource_asyncio h' cdc proj_id env_id client json_body permit_session s0)
     = map_sum id parsed
         (try_bind
           (h' (verify_ssl client,
                create_resource_get_kwargs proj_id env_id client json_body permit_session))
           (create_resource_build_response cdc)) \<and>
   (api_key_level (api_context (permit_config s)) = ENVIRONMENT_LEVEL_API_KEY \<longrightarrow>
      (\<forall>user addr. uc = U_sync user \<longrightarrow> validated_user rt user s = User_dict addr \<longrightarrow>
         (\<exists>v. map_of (dict_at s addr) ''key'' = Some (PyVal v))) \<longrightarrow>
      length (sent (UsersApi_invoke rt uc s)) = 1 \<and>
      result (UsersApi_invoke rt uc s)
        = try_bind (remote rt (hd (sent (UsersApi_invoke rt uc s))))
            (handle_response rt (UsersApi_call_model uc))) \<and>
   (api_key_level (api_context (permit_config s)) = ENVIRONMENT_LEVEL_API_KEY \<longrightarrow>
      validated_user rt user_arg s = User_dict a \<longrightarrow>
      map_of (dict_at s a) ''key'' = None \<or> map_of (dict_at s a) ''key'' = Some PyNone \<longrightarrow>
      sent (UsersApi_invoke rt (U_sync user_arg) s) = [] \<and>
      result (UsersApi_invoke rt (U_sync user_arg) s)
        = Inl (KeyError ''required 'key' in input dictionary'')) \<and>
   (api_key_level (api_context (permit_config s)) = ENVIRONMENT_LEVEL_API_KEY \<longrightarrow>
      length (sent (TenantsApi_invoke rt tself tc s)) = 1 \<and>
      result (TenantsApi_invoke rt tself tc s)
        = try_bind (remote rt (hd (sent (TenantsApi_invoke rt tself tc s))))
            (handle_response rt (TenantsApi_call_model tc))) \<and>
   (api_key_level (api_context (permit_config s)) = PROJECT_LEVEL_API_KEY \<longrightarrow>
      length (sent (EnvironmentsApi_invoke rt eself ec s)) = 1 \<and>
      result (EnvironmentsApi_invoke rt eself ec s)
        = try_bind (remote rt (hd (sent (EnvironmentsApi_invoke rt eself ec s))))
            (handle_response rt (EnvironmentsApi_call_model ec)))"
proof -
  have generated_sent:
    "sent (get_data_for_user_sync_detailed h cdc org_id proj_id env_id user_id client s0)
       = [(verify_ssl client, get_data_for_user_get_kwargs org_id proj_id env_id user_id client)]"
    "sent (get_data_for_user_sync h cdc org_id proj_id env_id user_id client s0)
       = [(verify_ssl client, get_data_for_user_get_kwargs org_id proj_id env_id user_id client)]"
    "sent (get_data_for_user_asyncio_detailed h cdc org_id proj_id env_id user_id client s0)
       = [(verify_ssl client, get_data_for_user_get_kwargs org_id proj_id env_id user_id client)]"
    "sent (get_data_for_user_asyncio h cdc org_id proj_id env_id user_id client s0)
       = [(verify_ssl client, get_data_for_user_get_kwargs org_id proj_id env_id user_id client)]"
    "sent (create_resource_sync_detailed h' cdc proj_id env_id client json_body permit_session s0)
       = [(verify_ssl client,
           create_resource_get_kwargs proj_id env_id client json_body permit_session)]"
    "sent (create_resource_sync h' cdc proj_id env_id client json_body permit_session s0)
       = [(verify_ssl client,
           create_resource_get_kwargs proj_id env_id client json_body permit_session)]"
    "sent (create_resource_asyncio_detailed h' cdc proj_id env_id client json_body permit_session s0)
       = [(verify_ssl client,
           create_resource_get_kwargs proj_id env_id client json_body permit_session)]"
    "sent (create_resource_asyncio h' cdc proj_id env_id client json_body permit_session s0)
       = [(verify_ssl client,
           create_resource_get_kwargs proj_id env_id client json_body permit_session)]"
    by (simp_all add: openapi_defs openapi_outcomes sent_def)
  have generated_result:
    "result (get_data_for_user_sync_detailed h cdc org_id proj_id env_id user_id client s0)
       = try_bind
           (h (verify_ssl client, get_data_for_user_get_kwargs org_id proj_id env_id user_id client))
           (get_data_for_user_build_response cdc)"
    "result (get_data_for_user_sync h cdc org_id proj_id env_id user_id client s0)
       = map_sum id parsed
           (try_bind
             (h (verify_ssl client,
                 get_data_for_user_get_kwargs org_id proj_id env_id user_id client))
             (get_data_for_user_build_response cdc))"
    "result (get_data_for_user_asyncio_detailed h cdc org_id proj_id env_id user_id client s0)
       = try_bind
           (h (verify_ssl client, get_data_for_user_get_kwargs org_id proj_id env_id user_id client))
           (get_data_for_user_build_response cdc)"
    "result (get_data_for_user_asyncio h cdc org_id proj_id env_id user_id client s0)
       = map_sum id parsed
           (try_bind
             (h (verify_ssl client,
                 get_data_for_user_get_kwargs org_id proj_id env_id user_id client))
             (get_data_for_user_build_response cdc))"
    "result (create_resource_sync_detailed h' cdc proj_id env_id client json_body permit_session s0)
       = try_bind
           (h' (verify_ssl client,
                create_resource_get_kwargs proj_id env_id client json_body permit_session))
           (create_resource_build_response cdc)"
    "result (create_resource_sync h' cdc proj_id env_id client json_body permit_session s0)
       = map_sum id parsed
           (try_bind
             (h' (verify_ssl client,
                  create_resource_get_kwargs proj_id env_id client json_body permit_session))
             (create_resource_build_response cdc))"
    "result (create_resource_asyncio_detailed h' cdc proj_id env_id client json_body permit_session s0)
       = try_bind
           (h' (verify_ssl client,
                create_resource_get_kwargs proj_id env_id client json_body permit_session))
           (create_resource_build_response cdc)"
    "result (create_resource_asyncio h' cdc proj_id env_id client json_body permit_session s0)
       = map_sum id parsed
           (try_bind
             (h' (verify_ssl client,
                  create_resource_get_kwargs proj_id env_id client json_body permit_session))
             (create_resource_build_response cdc))"
    by (simp_all add: openapi_defs openapi_outcomes result_def)
  have users:
    "api_key_level (api_context (permit_config s)) = ENVIRONMENT_LEVEL_API_KEY \<longrightarrow>
       (\<forall>user addr. uc = U_sync user \<longrightarrow> validated_user rt user s = User_dict addr \<longrightarrow>
          (\<exists>v. map_of (dict_at s addr) ''key'' = Some (PyVal v))) \<longrightarrow>
       length (sent (UsersApi_invoke rt uc s)) = 1 \<and>
       result (UsersApi_invoke rt uc s)
         = try_bind (remote rt (hd (sent (UsersApi_invoke rt uc s))))
             (handle_response rt (UsersApi_call_model uc))"
    unfolding UsersApi_invoke_guarded validate_arguments_def
    by (intro impI) (simp only: ensure_context_match UsersApi_func_awaits)
  have keyless:
    "api_key_level (api_context (permit_config s)) = ENVIRONMENT_LEVEL_API_KEY \<longrightarrow>
       validated_user rt user_arg s = User_dict a \<longrightarrow>
       map_of (dict_at s a) ''key'' = None \<or> map_of (dict_at s a) ''key'' = Some PyNone \<longrightarrow>
       sent (UsersApi_invoke rt (U_sync user_arg) s) = [] \<and>
       result (UsersApi_invoke rt (U_sync user_arg) s)
         = Inl (KeyError ''required 'key' in input dictionary'')"
    unfolding UsersApi_invoke_guarded validate_arguments_def
    by (intro impI) (simp only: ensure_context_match UsersApi_func_keyless)
  have tenants:
    "api_key_level (api_context (permit_config s)) = ENVIRONMENT_LEVEL_API_KEY \<longrightarrow>
       length (sent (TenantsApi_invoke rt tself tc s)) = 1 \<and>
       result (TenantsApi_invoke rt tself tc s)
         = try_bind (remote rt (hd (sent (TenantsApi_invoke rt tself tc s))))
             (handle_response rt (TenantsApi_call_model tc))"
    unfolding TenantsApi_invoke_guarded
    by (intro impI) (simp only: ensure_context_match TenantsApi_func_awaits)
  have environments:
    "api_key_level (api_context (permit_config s)) = PROJECT_LEVEL_API_KEY \<longrightarrow>
       length (sent (EnvironmentsApi_invoke rt eself ec s)) = 1 \<and>
       result (EnvironmentsApi_invoke rt eself ec s)
         = try_bind (remote rt (hd (sent (EnvironmentsApi_invoke rt eself ec s))))
             (handle_response rt (EnvironmentsApi_call_model ec))"
    unfolding EnvironmentsApi_invoke_guarded validate_arguments_def
    by (intro impI) (simp only: ensure_context_match EnvironmentsApi_func_awaits)
  show ?thesis
    by (intro conjI generated_sent generated_result users keyless tenants environments)
qed

theorem one_request_per_call_witness:
  "sent (UsersApi_invoke example_runtime (U_get_by_key ''u1'')
           (example_state ENVIRONMENT_LEVEL_API_KEY ''p'' ''e''))
     = [\<lparr> rq_method = GET, rq_url = ''https://api.permit.io/v2/facts/p/e/users/u1'',
          rq_params = None, rq_json = None \<rparr>] \<and>
   result (UsersApi_invoke example_runtime (U_get_by_key ''u1'')
             (example_state ENVIRONMENT_LEVEL_API_KEY ''p'' ''e'')) = Inr ''{}'' \<and>
   sent (UsersApi_invoke example_runtime (U_sync (User_dict 2))
           (example_state ENVIRONMENT_LEVEL_API_KEY ''p'' ''e'')) = [] \<and>
   sent (TenantsApi_invoke example_runtime
           (TenantsApi_init (example_config ENVIRONMENT_LEVEL_API_KEY ''p'' ''e''))
           (T_delete_tenant_user ''t1'' ''u1'')
           (example_state ENVIRONMENT_LEVEL_API_KEY ''p'' ''e''))
     = [\<lparr> rq_method = DELETE,
          rq_url = ''https://api.permit.io/v2/facts/p/e/tenants/t1/users/u1'',
          rq_params = None, rq_json = None \<rparr>] \<and>
   sent (EnvironmentsApi_invoke example_runtime
           (EnvironmentsApi_init (example_config PROJECT_LEVEL_API_KEY ''p'' ''e''))
           (E_get_stats ''p'' ''e'') (example_state PROJECT_LEVEL_API_KEY ''p'' ''e''))
     = [\<lparr> rq_method = GET, rq_url = ''https://api.permit.io/v2/projects/p/envs/e/stats'',
          rq_params = None, rq_json = None \<rparr>]"
  using
    one_request_per_call
      [of example_httpx example_codec "''o''" "''p''" "''e''" "''u1''" example_client
          "example_state ENVIRONMENT_LEVEL_API_KEY ''p'' ''e''" example_httpx
          "\<lparr> dict = [] \<rparr>" None
          "example_state ENVIRONMENT_LEVEL_API_KEY ''p'' ''e''" "U_get_by_key ''u1''"
          example_runtime "User_dict 2" 2
          "TenantsApi_init (example_config ENVIRONMENT_LEVEL_API_KEY ''p'' ''e'')"
          "T_delete_tenant_user ''t1'' ''u1''"
          "EnvironmentsApi_init (example_config PROJECT_LEVEL_API_KEY ''p'' ''e'')"
          "E_get_stats ''p'' ''e''"]
    one_request_per_call
      [of example_httpx example_codec "''o''" "''p''" "''e''" "''u1''" example_client
          "example_state PROJECT_LEVEL_API_KEY ''p'' ''e''" example_httpx
          "\<lparr> dict = [] \<rparr>" None
          "example_state PROJECT_LEVEL_API_KEY ''p'' ''e''" "U_get_by_key ''u1''"
          example_runtime "User_dict 2" 2
          "TenantsApi_init (example_config ENVIRONMENT_LEVEL_API_KEY ''p'' ''e'')"
          "T_delete_tenant_user ''t1'' ''u1''"
          "EnvironmentsApi_init (example_config PROJECT_LEVEL_API_KEY ''p'' ''e'')"
          "E_get_stats ''p'' ''e''"]
  by (simp add: example_defs outcome_defs UsersApi_get_by_key_def UsersApi_get_by_key_func_def
        UsersApi_get_def UsersApi_get_func_def UsersApi_sync_def UsersApi_func_sync
        validated_user_def sync_func_dict_key_None
        TenantsApi_delete_tenant_user_def TenantsApi_delete_tenant_user_func_def
        TenantsApi_init_def EnvironmentsApi_get_stats_def EnvironmentsApi_get_stats_func_def
        EnvironmentsApi_init_def build_http_client_def call_simps try_bind_def)

text \<open>
  The claim as the spec states it ("never zero requests when the guard passes") meets
  \<open>sync\<close> on a dict without a key: the guard passes and no request is issued.
\<close>

theorem sync_without_key_issues_no_request:
  "api_key_level (api_context (permit_config (example_state ENVIRONMENT_LEVEL_API_KEY ''p'' ''e'')))
     = ENVIRONMENT_LEVEL_API_KEY \<and>
   length (sent (UsersApi_invoke example_runtime (U_sync (User_dict 1))
                   (example_state ENVIRONMENT_LEVEL_API_KEY ''p'' ''e''))) = 0 \<and>
   result (UsersApi_invoke example_runtime (U_sync (User_dict 1))
             (example_state ENVIRONMENT_LEVEL_API_KEY ''p'' ''e''))
     = Inl (KeyError ''required 'key' in input dictionary'')"
  by (simp add: example_defs outcome_defs UsersApi_sync_def UsersApi_func_sync
        validated_user_def ensure_context_match sync_func_dict_no_key)

section \<open>Pagination\<close>

text \<open>
  C4. The five list operations, when the guard lets the call through, send one GET whose
  query parameters are \<open>page\<close> and \<open>per_page\<close>, with the values of the arguments of
  these names, 1 and 100 standing in for an omitted one; the URL does not depend on them
  and there is no body. (\<open>get_assigned_roles\<close> adds its filters \<open>user\<close> and, when given,
  \<open>tenant\<close> after them.)
\<close>

theorem pagination_as_query_params:
  "(api_key_level (api_context (permit_config s)) = ENVIRONMENT_LEVEL_API_KEY \<longrightarrow>
      sent (UsersApi_list rt page per_page s)
        = [\<lparr> rq_method = GET,
             rq_url = api_url (permit_config s) @ ''/v2/facts/''
                        @ project (api_context (permit_config s)) @ ''/''
                        @ environment (api_context (permit_config s)) @ ''/users'',
             rq_params = Some [(''page'', PInt (case page of None \<Rightarrow> 1 | Some n \<Rightarrow> n)),
                               (''per_page'', PInt (case per_page of None \<Rightarrow> 100 | Some n \<Rightarrow> n))],
             rq_json = None \<rparr>] \<and>
      sent (UsersApi_get_assigned_roles rt user tenant page per_page s)
        = [\<lparr> rq_method = GET,
             rq_url = api_url (permit_config s) @ ''/v2/facts/''
                        @ project (api_context (permit_config s)) @ ''/''
                        @ environment (api_context (permit_config s)) @ ''/role_assignments'',
             rq_params = Some ([(''page'', PInt (case page of None \<Rightarrow> 1 | Some n \<Rightarrow> n)),
                                (''per_page'', PInt (case per_page of None \<Rightarrow> 100 | Some n \<Rightarrow> n)),
                                (''user'', PStr user)]
                               @ (case tenant of None \<Rightarrow> [] | Some t \<Rightarrow> [(''tenant'', PStr t)])),
             rq_json = None \<rparr>] \<and>
      sent (TenantsApi_list rt tself page per_page s)
        = [\<lparr> rq_method = GET, rq_url = client_base_url (tenants tself),
             rq_params = Some [(''page'', PInt (case page of None \<Rightarrow> 1 | Some n \<Rightarrow> n)),
                               (''per_page'', PInt (case per_page of None \<Rightarrow> 100 | Some n \<Rightarrow> n))],
             rq_json = None \<rparr>] \<and>
      sent (TenantsApi_list_tenant_users rt tself tenant_key page per_page s)
        = [\<lparr> rq_method = GET,
             rq_url = client_base_url (tenants tself) @ ''/'' @ tenant_key @ ''/users'',
             rq_params = Some [(''page'', PInt (case page of None \<Rightarrow> 1 | Some n \<Rightarrow> n)),
                               (''per_page'', PInt (case per_page of None \<Rightarrow> 100 | Some n \<Rightarrow> n))],
             rq_json = None \<rparr>]) \<and>
   (api_key_level (api_context (permit_config s)) = PROJECT_LEVEL_API_KEY \<longrightarrow>
      sent (EnvironmentsApi_list rt eself project_key page per_page s)
        = [\<lparr> rq_method = GET,
             rq_url = client_base_url (environments eself) @ ''/v2/projects/'' @ project_key
                        @ ''/envs'',
             rq_params = Some [(''page'', PInt (case page of None \<Rightarrow> 1 | Some n \<Rightarrow> n)),
                               (''per_page'', PInt (case per_page of None \<Rightarrow> 100 | Some n \<Rightarrow> n))],
             rq_json = None \<rparr>])"
proof -
  have users:
    "api_key_level (api_context (permit_config s)) = ENVIRONMENT_LEVEL_API_KEY \<Longrightarrow>
     sent (UsersApi_list rt page per_page s)
        = [\<lparr> rq_method = GET,
             rq_url = api_url (permit_config s) @ ''/v2/facts/''
                        @ project (api_context (permit_config s)) @ ''/''
                        @ environment (api_context (permit_config s)) @ ''/users'',
             rq_params = Some [(''page'', PInt (case page of None \<Rightarrow> 1 | Some n \<Rightarrow> n)),
                               (''per_page'', PInt (case per_page of None \<Rightarrow> 100 | Some n \<Rightarrow> n))],
             rq_json = None \<rparr>]"
    by (simp add: UsersApi_list_def UsersApi_list_func_def call_simps build_http_client_def
          pagination_params_def or_default_def sent_def)
  have roles:
    "api_key_level (api_context (permit_config s)) = ENVIRONMENT_LEVEL_API_KEY \<Longrightarrow>
     sent (UsersApi_get_assigned_roles rt user tenant page per_page s)
        = [\<lparr> rq_method = GET,
             rq_url = api_url (permit_config s) @ ''/v2/facts/''
                        @ project (api_context (permit_config s)) @ ''/''
                        @ environment (api_context (permit_config s)) @ ''/role_assignments'',
             rq_params = Some ([(''page'', PInt (case page of None \<Rightarrow> 1 | Some n \<Rightarrow> n)),
                                (''per_page'', PInt (case per_page of None \<Rightarrow> 100 | Some n \<Rightarrow> n)),
                                (''user'', PStr user)]
                               @ (case tenant of None \<Rightarrow> [] | Some t \<Rightarrow> [(''tenant'', PStr t)])),
             rq_json = None \<rparr>]"
    by (cases tenant)
       (simp_all add: UsersApi_get_assigned_roles_def UsersApi_get_assigned_roles_func_def
          call_simps build_http_client_def pagination_params_def or_default_def sent_def)
  have tenants:
    "api_key_level (api_context (permit_config s)) = ENVIRONMENT_LEVEL_API_KEY \<Longrightarrow>
     sent (TenantsApi_list rt tself page per_page s)
        = [\<lparr> rq_method = GET, rq_url = client_base_url (tenants tself),
             rq_params = Some [(''page'', PInt (case page of None \<Rightarrow> 1 | Some n \<Rightarrow> n)),
                               (''per_page'', PInt (case per_page of None \<Rightarrow> 100 | Some n \<Rightarrow> n))],
             rq_json = None \<rparr>]"
    by (simp add: TenantsApi_list_def TenantsApi_list_func_def call_simps
          pagination_params_def or_default_def sent_def)
  have tenant_users:
    "api_key_level (api_context (permit_config s)) = ENVIRONMENT_LEVEL_API_KEY \<Longrightarrow>
     sent (TenantsApi_list_tenant_users rt tself tenant_key page per_page s)
        = [\<lparr> rq_method = GET,
             rq_url = client_base_url (tenants tself) @ ''/'' @ tenant_key @ ''/users'',
             rq_params = Some [(''page'', PInt (case page of None \<Rightarrow> 1 | Some n \<Rightarrow> n)),
                               (''per_page'', PInt (case per_page of None \<Rightarrow> 100 | Some n \<Rightarrow> n))],
             rq_json = None \<rparr>]"
    by (simp add: TenantsApi_list_tenant_users_def TenantsApi_list_tenant_users_func_def
          call_simps pagination_params_def or_default_def sent_def)
  have environments:
    "api_key_level (api_context (permit_config s)) = PROJECT_LEVEL_API_KEY \<Longrightarrow>
     sent (EnvironmentsApi_list rt eself project_key page per_page s)
        = [\<lparr> rq_method = GET,
             rq_url = client_base_url (environments eself) @ ''/v2/projects/'' @ project_key
                        @ ''/envs'',
             rq_params = Some [(''page'', PInt (case page of None \<Rightarrow> 1 | Some n \<Rightarrow> n)),
                               (''per_page'', PInt (case per_page of None \<Rightarrow> 100 | Some n \<Rightarrow> n))],
             rq_json = None \<rparr>]"
    by (simp add: EnvironmentsApi_list_def EnvironmentsApi_list_func_def call_simps
          pagination_params_def or_default_def sent_def)
  show ?thesis
    using users roles tenants tenant_users environments by blast
qed

theorem pagination_as_query_params_witness:
  "sent (UsersApi_list example_runtime None None
           (example_state ENVIRONMENT_LEVEL_API_KEY ''p'' ''e''))
     = [\<lparr> rq_method = GET, rq_url = ''https://api.permit.io/v2/facts/p/e/users'',
          rq_params = Some [(''page'', PInt 1), (''per_page'', PInt 100)],
          rq_json = None \<rparr>] \<and>
   sent (UsersApi_get_assigned_roles example_runtime ''u1'' (Some ''t1'') (Some 3) None
           (example_state ENVIRONMENT_LEVEL_API_KEY ''p'' ''e''))
     = [\<lparr> rq_method = GET, rq_url = ''https://api.permit.io/v2/facts/p/e/role_assignments'',
          rq_params = Some [(''page'', PInt 3), (''per_page'', PInt 100),
                            (''user'', PStr ''u1''), (''tenant'', PStr ''t1'')],
          rq_json = None \<rparr>] \<and>
   sent (TenantsApi_list_tenant_users example_runtime
           (TenantsApi_init (example_config ENVIRONMENT_LEVEL_API_KEY ''p'' ''e'')) ''t1''
           (Some 2) (Some 50) (example_state ENVIRONMENT_LEVEL_API_KEY ''p'' ''e''))
     = [\<lparr> rq_method = GET, rq_url = ''https://api.permit.io/v2/facts/p/e/tenants/t1/users'',
          rq_params = Some [(''page'', PInt 2), (''per_page'', PInt 50)],
          rq_json = None \<rparr>] \<and>
   sent (EnvironmentsApi_list example_runtime
           (EnvironmentsApi_init (example_config PROJECT_LEVEL_API_KEY ''p'' ''e'')) ''p''
           None (Some 10) (example_state PROJECT_LEVEL_API_KEY ''p'' ''e''))
     = [\<lparr> rq_method = GET, rq_url = ''https://api.permit.io/v2/projects/p/envs'',
          rq_params = Some [(''page'', PInt 1), (''per_page'', PInt 10)],
          rq_json = None \<rparr>]"
  using
    pagination_as_query_params
      [of "example_state ENVIRONMENT_LEVEL_API_KEY ''p'' ''e''" example_runtime None None
          "''u1''" None
          "TenantsApi_init (example_config ENVIRONMENT_LEVEL_API_KEY ''p'' ''e'')" "''t1''"
          "EnvironmentsApi_init (example_config PROJECT_LEVEL_API_KEY ''p'' ''e'')" "''p''"]
    pagination_as_query_params
      [of "example_state ENVIRONMENT_LEVEL_API_KEY ''p'' ''e''" example_runtime "Some 3" None
          "''u1''" "Some ''t1''"
          "TenantsApi_init (example_config ENVIRONMENT_LEVEL_API_KEY ''p'' ''e'')" "''t1''"
          "EnvironmentsApi_init (example_config PROJECT_LEVEL_API_KEY ''p'' ''e'')" "''p''"]
    pagination_as_query_params
      [of "example_state ENVIRONMENT_LEVEL_API_KEY ''p'' ''e''" example_runtime "Some 2"
          "Some 50" "''u1''" None
          "TenantsApi_init (example_config ENVIRONMENT_LEVEL_API_KEY ''p'' ''e'')" "''t1''"
          "EnvironmentsApi_init (example_config PROJECT_LEVEL_API_KEY ''p'' ''e'')" "''p''"]
    pagination_as_query_params
      [of "example_state PROJECT_LEVEL_API_KEY ''p'' ''e''" example_runtime None "Some 10"
          "''u1''" None
          "TenantsApi_init (example_config ENVIRONMENT_LEVEL_API_KEY ''p'' ''e'')" "''t1''"
          "EnvironmentsApi_init (example_config PROJECT_LEVEL_API_KEY ''p'' ''e'')" "''p''"]
  by (simp add: example_defs TenantsApi_init_def EnvironmentsApi_init_def
        build_http_client_def)

section \<open>The paths of a module\<close>

lemma UsersApi_func_url:
  assumes "api_key_level (api_context (permit_config s)) = ENVIRONMENT_LEVEL_API_KEY"
    and "q \<in> set (sent (UsersApi_func rt c s))"
  shows "(\<forall>user tenant page per_page. c \<noteq> U_get_assigned_roles user tenant page per_page) \<longrightarrow>
           prefix (api_url (permit_config s) @ ''/v2/facts/''
                     @ project (api_context (permit_config s)) @ ''/''
                     @ environment (api_context (permit_config s)) @ ''/users'') (rq_url q)"
    and "(\<exists>user tenant page per_page. c = U_get_assigned_roles user tenant page per_page) \<longrightarrow>
           rq_url q = api_url (permit_config s) @ ''/v2/facts/''
                        @ project (api_context (permit_config s)) @ ''/''
                        @ environment (api_context (permit_config s)) @ ''/role_assignments''"
proof -
  have both:
    "((\<forall>user tenant page per_page. c \<noteq> U_get_assigned_roles user tenant page per_page) \<longrightarrow>
           prefix (api_url (permit_config s) @ ''/v2/facts/''
                     @ project (api_context (permit_config s)) @ ''/''
                     @ environment (api_context (permit_config s)) @ ''/users'') (rq_url q)) \<and>
     ((\<exists>user tenant page per_page. c = U_get_assigned_roles user tenant page per_page) \<longrightarrow>
           rq_url q = api_url (permit_config s) @ ''/v2/facts/''
                        @ project (api_context (permit_config s)) @ ''/''
                        @ environment (api_context (permit_config s)) @ ''/role_assignments'')"
  proof (cases c)
    case (U_sync user)
    show ?thesis
    proof (cases "validated_user rt user s")
      case (User_model m)
      with U_sync assms(2) show ?thesis
        by (simp add: UsersApi_func_sync sync_func_model sent_def prefix_def)
    next
      case (User_dict addr)
      consider
          (absent) "map_of (dict_at s addr) ''key'' = None"
        | (none) "map_of (dict_at s addr) ''key'' = Some PyNone"
        | (val) w where "map_of (dict_at s addr) ''key'' = Some (PyVal w)"
        using map_of_key_cases [of "dict_at s addr" "''key''"] by auto
      then show ?thesis
      proof cases
        case absent
        with U_sync User_dict assms(2) show ?thesis
          by (simp add: UsersApi_func_sync sync_func_dict_no_key sent_def)
      next
        case none
        with U_sync User_dict assms(2) show ?thesis
          by (simp add: UsersApi_func_sync sync_func_dict_key_None sent_def)
      next
        case val
        with U_sync User_dict assms(2) show ?thesis
          by (simp add: UsersApi_func_sync sync_func_dict_key sent_def prefix_def)
      qed
    qed
  qed (use assms in \<open>simp_all add: UsersApi_plain_func_defs UsersApi_get_def call_simps
         build_http_client_def sent_def prefix_def\<close>)
  then show
    "(\<forall>user tenant page per_page. c \<noteq> U_get_assigned_roles user tenant page per_page) \<longrightarrow>
           prefix (api_url (permit_config s) @ ''/v2/facts/''
                     @ project (api_context (permit_config s)) @ ''/''
                     @ environment (api_context (permit_config s)) @ ''/users'') (rq_url q)"
    and "(\<exists>user tenant page per_page. c = U_get_assigned_roles user tenant page per_page) \<longrightarrow>
           rq_url q = api_url (permit_config s) @ ''/v2/facts/''
                        @ project (api_context (permit_config s)) @ ''/''
                        @ environment (api_context (permit_config s)) @ ''/role_assignments''"
    by blast+
qed

lemma TenantsApi_func_url:
  assumes "api_key_level (api_context (permit_config s)) = ENVIRONMENT_LEVEL_API_KEY"
    and "q \<in> set (sent (TenantsApi_func rt self c s))"
  shows "prefix (client_base_url (tenants self)) (rq_url q)"
  using assms
  by (cases c)
     (simp_all add: TenantsApi_func_defs TenantsApi_get_def call_simps sent_def prefix_def)


lemma guarded_sent_cases:
  "q \<in> set (sent (ensure_context call_level func s)) \<Longrightarrow>
   api_key_level (api_context (permit_config s)) = call_level \<and> q \<in> set (sent (func s))"
  by (cases "api_key_level (api_context (permit_config s)) = call_level")
     (simp_all add: ensure_context_match ensure_context_mismatch sent_def)

lemma TenantsApi_invoke_sent:
  "q \<in> set (sent (TenantsApi_invoke rt self c s)) \<Longrightarrow>
   api_key_level (api_context (permit_config s)) = ENVIRONMENT_LEVEL_API_KEY \<and>
   q \<in> set (sent (TenantsApi_func rt self c s))"
  unfolding TenantsApi_invoke_guarded by (rule guarded_sent_cases)

lemma UsersApi_invoke_sent:
  "q \<in> set (sent (UsersApi_invoke rt c s)) \<Longrightarrow>
   api_key_level (api_context (permit_config s)) = ENVIRONMENT_LEVEL_API_KEY \<and>
   q \<in> set (sent (UsersApi_func rt c s))"
  unfolding UsersApi_invoke_guarded validate_arguments_def by (rule guarded_sent_cases)





section \<open>What a result is made of\<close>




section \<open>When the base URL is fixed\<close>

lemma append_sep_inject:
  "c \<notin> set a \<Longrightarrow> c \<notin> set b \<Longrightarrow> a @ c # x = b @ c # y \<Longrightarrow> a = b \<and> x = y"
proof (induction a arbitrary: b)
  case Nil
  then show ?case by (cases b) auto
next
  case (Cons a0 a)
  then show ?case by (cases b) auto
qed

lemma facts_url_inject:
  assumes "CHR ''/'' \<notin> set p" and "CHR ''/'' \<notin> set e"
    and "CHR ''/'' \<notin> set p'" and "CHR ''/'' \<notin> set e'"
    and "prefix (a @ ''/v2/facts/'' @ p @ ''/'' @ e @ ''/'') u"
    and "prefix (a @ ''/v2/facts/'' @ p' @ ''/'' @ e' @ ''/'') u"
  shows "p = p' \<and> e = e'"
proof -
  from assms(5) obtain r where r: "u = (a @ ''/v2/facts/'' @ p @ ''/'' @ e @ ''/'') @ r"
    unfolding prefix_def by blast
  from assms(6) obtain r' where r': "u = (a @ ''/v2/facts/'' @ p' @ ''/'' @ e' @ ''/'') @ r'"
    unfolding prefix_def by blast
  have "(a @ ''/v2/facts/'' @ p @ ''/'' @ e @ ''/'') @ r = (a @ ''/v2/facts/'' @ p' @ ''/'' @ e' @ ''/'') @ r'"
    using r r' by (rule trans [OF sym])
  then have "p @ CHR ''/'' # (e @ CHR ''/'' # r) = p' @ CHR ''/'' # (e' @ CHR ''/'' # r')"
    by simp
  from append_sep_inject [OF assms(1) assms(3) this]
  have "p = p'" and rest: "e @ CHR ''/'' # r = e' @ CHR ''/'' # r'"
    by simp_all
  from append_sep_inject [OF assms(2) assms(4) rest] \<open>p = p'\<close> show ?thesis
    by simp
qed

lemma UsersApi_invoke_url_base:
  assumes "q \<in> set (sent (UsersApi_invoke rt c s))"
  shows "prefix (api_url (permit_config s) @ ''/v2/facts/''
                   @ project (api_context (permit_config s)) @ ''/''
                   @ environment (api_context (permit_config s)) @ ''/'') (rq_url q)"
proof -
  from UsersApi_invoke_sent [OF assms]
  have lvl: "api_key_level (api_context (permit_config s)) = ENVIRONMENT_LEVEL_API_KEY"
    and mem: "q \<in> set (sent (UsersApi_func rt c s))"
    by simp_all
  show ?thesis
  proof (cases "\<exists>user tenant page per_page. c = U_get_assigned_roles user tenant page per_page")
    case True
    have "rq_url q = api_url (permit_config s) @ ''/v2/facts/''
                       @ project (api_context (permit_config s)) @ ''/''
                       @ environment (api_context (permit_config s)) @ ''/role_assignments''"
      by (rule mp [OF UsersApi_func_url(2) [OF lvl mem] True])
    then have "rq_url q = (api_url (permit_config s) @ ''/v2/facts/''
                       @ project (api_context (permit_config s)) @ ''/''
                       @ environment (api_context (permit_config s)) @ ''/'') @ ''role_assignments''"
      by simp
    then show ?thesis by (rule prefixI)
  next
    case False
    then have other:
      "\<forall>user tenant page per_page. c \<noteq> U_get_assigned_roles user tenant page per_page"
      by simp
    have "prefix (api_url (permit_config s) @ ''/v2/facts/''
                    @ project (api_context (permit_config s)) @ ''/''
                    @ environment (api_context (permit_config s)) @ ''/users'') (rq_url q)"
      by (rule mp [OF UsersApi_func_url(1) [OF lvl mem] other])
    then have "prefix ((api_url (permit_config s) @ ''/v2/facts/''
                    @ project (api_context (permit_config s)) @ ''/''
                    @ environment (api_context (permit_config s)) @ ''/'') @ ''users'') (rq_url q)"
      by simp
    then show ?thesis by (rule append_prefixD)
  qed
qed

lemma TenantsApi_invoke_url_base:
  assumes "q \<in> set (sent (TenantsApi_invoke rt (TenantsApi_init cfg) c s))"
  shows "prefix (api_url cfg @ ''/v2/facts/'' @ project (api_context cfg) @ ''/''
                   @ environment (api_context cfg) @ ''/tenants'') (rq_url q)"
proof -
  from TenantsApi_invoke_sent [OF assms]
  have "api_key_level (api_context (permit_config s)) = ENVIRONMENT_LEVEL_API_KEY"
    and "q \<in> set (sent (TenantsApi_func rt (TenantsApi_init cfg) c s))"
    by simp_all
  then have "prefix (client_base_url (tenants (TenantsApi_init cfg))) (rq_url q)"
    by (rule TenantsApi_func_url)
  then show ?thesis
    by (simp add: TenantsApi_init_def build_http_client_def)
qed

lemma TenantsApi_func_sent_frame:
  assumes "api_key_level (api_context (permit_config s)) = ENVIRONMENT_LEVEL_API_KEY"
    and "api_key_level (api_context (permit_config s')) = ENVIRONMENT_LEVEL_API_KEY"
  shows "sent (TenantsApi_func rt self c s) = sent (TenantsApi_func rt self c s')"
  using assms
  by (cases c) (simp_all add: TenantsApi_func_defs TenantsApi_get_def call_simps sent_def)

text \<open>
  C8, as the code has it. The requests of a \<open>TenantsApi\<close> go to URLs under the tenants
  path of the project and environment of the configuration it was built with, and they
  are the same requests whatever the API context has become since (as long as the guard
  lets the call through). The requests of \<open>UsersApi\<close> go to URLs under the facts path of
  the project and environment configured when the call is made; when the project or the
  environment has changed, and neither the old nor the new ones contain a slash, no
  request after the change has the URL of a request before it.
\<close>

theorem base_url_binding_time:
  "(\<forall>q \<in> set (sent (TenantsApi_invoke rt (TenantsApi_init cfg) tc s)).
      prefix (api_url cfg @ ''/v2/facts/'' @ project (api_context cfg) @ ''/''
                @ environment (api_context cfg) @ ''/tenants'') (rq_url q)) \<and>
   (api_key_level (api_context (permit_config s)) = ENVIRONMENT_LEVEL_API_KEY \<longrightarrow>
    api_key_level (api_context (permit_config s')) = ENVIRONMENT_LEVEL_API_KEY \<longrightarrow>
      sent (TenantsApi_invoke rt tself tc s) = sent (TenantsApi_invoke rt tself tc s')) \<and>
   (\<forall>q \<in> set (sent (UsersApi_invoke rt uc s)).
      prefix (api_url (permit_config s) @ ''/v2/facts/''
                @ project (api_context (permit_config s)) @ ''/''
                @ environment (api_context (permit_config s)) @ ''/'') (rq_url q)) \<and>
   (api_url (permit_config s) = api_url (permit_config s') \<longrightarrow>
    CHR ''/'' \<notin> set (project (api_context (permit_config s))) \<longrightarrow>
    CHR ''/'' \<notin> set (environment (api_context (permit_config s))) \<longrightarrow>
    CHR ''/'' \<notin> set (project (api_context (permit_config s'))) \<longrightarrow>
    CHR ''/'' \<notin> set (environment (api_context (permit_config s'))) \<longrightarrow>
    project (api_context (permit_config s)) \<noteq> project (api_context (permit_config s')) \<or>
    environment (api_context (permit_config s)) \<noteq> environment (api_context (permit_config s')) \<longrightarrow>
      (\<forall>q \<in> set (sent (UsersApi_invoke rt uc s)).
         \<forall>q' \<in> set (sent (UsersApi_invoke rt uc' s')). rq_url q \<noteq> rq_url q'))"
proof -
  have tenants_fixed:
    "\<forall>q \<in> set (sent (TenantsApi_invoke rt (TenantsApi_init cfg) tc s)).
       prefix (api_url cfg @ ''/v2/facts/'' @ project (api_context cfg) @ ''/''
                 @ environment (api_context cfg) @ ''/tenants'') (rq_url q)"
    by (rule ballI) (rule TenantsApi_invoke_url_base)
  have tenants_frame:
    "api_key_level (api_context (permit_config s)) = ENVIRONMENT_LEVEL_API_KEY \<longrightarrow>
     api_key_level (api_context (permit_config s')) = ENVIRONMENT_LEVEL_API_KEY \<longrightarrow>
       sent (TenantsApi_invoke rt tself tc s) = sent (TenantsApi_invoke rt tself tc s')"
  proof (intro impI)
    assume before: "api_key_level (api_context (permit_config s)) = ENVIRONMENT_LEVEL_API_KEY"
      and after: "api_key_level (api_context (permit_config s')) = ENVIRONMENT_LEVEL_API_KEY"
    show "sent (TenantsApi_invoke rt tself tc s) = sent (TenantsApi_invoke rt tself tc s')"
      unfolding TenantsApi_invoke_guarded ensure_context_match [OF before]
        ensure_context_match [OF after]
      by (rule TenantsApi_func_sent_frame [OF before after])
  qed
  have users_current:
    "\<forall>q \<in> set (sent (UsersApi_invoke rt uc s)).
       prefix (api_url (permit_config s) @ ''/v2/facts/''
                 @ project (api_context (permit_config s)) @ ''/''
                 @ environment (api_context (permit_config s)) @ ''/'') (rq_url q)"
    by (rule ballI) (rule UsersApi_invoke_url_base)
  have users_change:
    "api_url (permit_config s) = api_url (permit_config s') \<longrightarrow>
     CHR ''/'' \<notin> set (project (api_context (permit_config s))) \<longrightarrow>
     CHR ''/'' \<notin> set (environment (api_context (permit_config s))) \<longrightarrow>
     CHR ''/'' \<notin> set (project (api_context (permit_config s'))) \<longrightarrow>
     CHR ''/'' \<notin> set (environment (api_context (permit_config s'))) \<longrightarrow>
     project (api_context (permit_config s)) \<noteq> project (api_context (permit_config s')) \<or>
     environment (api_context (permit_config s)) \<noteq> environment (api_context (permit_config s')) \<longrightarrow>
       (\<forall>q \<in> set (sent (UsersApi_invoke rt uc s)).
          \<forall>q' \<in> set (sent (UsersApi_invoke rt uc' s')). rq_url q \<noteq> rq_url q')"
  proof (intro impI ballI notI)
    fix q q'
    assume same_api: "api_url (permit_config s) = api_url (permit_config s')"
      and slashes:
        "CHR ''/'' \<notin> set (project (api_context (permit_config s)))"
        "CHR ''/'' \<notin> set (environment (api_context (permit_config s)))"
        "CHR ''/'' \<notin> set (project (api_context (permit_config s')))"
        "CHR ''/'' \<notin> set (environment (api_context (permit_config s')))"
      and changed:
        "project (api_context (permit_config s)) \<noteq> project (api_context (permit_config s')) \<or>
         environment (api_context (permit_config s)) \<noteq> environment (api_context (permit_config s'))"
      and q: "q \<in> set (sent (UsersApi_invoke rt uc s))"
      and q': "q' \<in> set (sent (UsersApi_invoke rt uc' s'))"
      and same_url: "rq_url q = rq_url q'"
    have before:
      "prefix (api_url (permit_config s) @ ''/v2/facts/''
                 @ project (api_context (permit_config s)) @ ''/''
                 @ environment (api_context (permit_config s)) @ ''/'') (rq_url q)"
      using q by (rule UsersApi_invoke_url_base)
    have after:
      "prefix (api_url (permit_config s) @ ''/v2/facts/''
                 @ project (api_context (permit_config s')) @ ''/''
                 @ environment (api_context (permit_config s')) @ ''/'') (rq_url q)"
      using UsersApi_invoke_url_base [OF q'] unfolding same_api same_url .
    from facts_url_inject [OF slashes before after] changed show False
      by simp
  qed
  show ?thesis
    by (intro conjI tenants_fixed tenants_frame users_current users_change)
qed

theorem base_url_binding_time_witness:
  "map rq_url (sent (TenantsApi_invoke example_runtime
        (TenantsApi_init (example_config ENVIRONMENT_LEVEL_API_KEY ''p'' ''e'')) (T_get ''t1'')
        (example_state ENVIRONMENT_LEVEL_API_KEY ''p'' ''e'')))
     = [''https://api.permit.io/v2/facts/p/e/tenants/t1''] \<and>
   map rq_url (sent (TenantsApi_invoke example_runtime
        (TenantsApi_init (example_config ENVIRONMENT_LEVEL_API_KEY ''p'' ''e'')) (T_get ''t1'')
        (example_state ENVIRONMENT_LEVEL_API_KEY ''p2'' ''e'')))
     = [''https://api.permit.io/v2/facts/p/e/tenants/t1''] \<and>
   map rq_url (sent (UsersApi_invoke example_runtime (U_get ''u1'')
        (example_state ENVIRONMENT_LEVEL_API_KEY ''p'' ''e'')))
     = [''https://api.permit.io/v2/facts/p/e/users/u1''] \<and>
   map rq_url (sent (UsersApi_invoke example_runtime (U_get ''u1'')
        (example_state ENVIRONMENT_LEVEL_API_KEY ''p2'' ''e'')))
     = [''https://api.permit.io/v2/facts/p2/e/users/u1''] \<and>
   rq_url (hd (sent (UsersApi_invoke example_runtime (U_get ''u1'')
        (example_state ENVIRONMENT_LEVEL_API_KEY ''p'' ''e''))))
     \<noteq> rq_url (hd (sent (UsersApi_invoke example_runtime (U_get ''u1'')
        (example_state ENVIRONMENT_LEVEL_API_KEY ''p2'' ''e''))))"
  using
    base_url_binding_time
      [of example_runtime "example_config ENVIRONMENT_LEVEL_API_KEY ''p'' ''e''" "T_get ''t1''"
          "example_state ENVIRONMENT_LEVEL_API_KEY ''p'' ''e''"
          "example_state ENVIRONMENT_LEVEL_API_KEY ''p2'' ''e''"
          "TenantsApi_init (example_config ENVIRONMENT_LEVEL_API_KEY ''p'' ''e'')"
          "U_get ''u1''" "U_get ''u1''"]
  by (simp add: example_defs sent_def TenantsApi_get_def TenantsApi_get_func_def
        TenantsApi_init_def UsersApi_get_def UsersApi_get_func_def build_http_client_def
        call_simps)

text \<open>
  The claim as the spec states it (a change of the API context changes the URLs of all
  later \<open>UsersApi\<close> requests) meets a change that moves a slash from the project to the
  environment: the context has changed and the URL has not.
\<close>

theorem context_change_keeps_users_url:
  "api_context (permit_config (example_state ENVIRONMENT_LEVEL_API_KEY ''a/b'' ''c''))
     \<noteq> api_context (permit_config (example_state ENVIRONMENT_LEVEL_API_KEY ''a'' ''b/c'')) \<and>
   map rq_url (sent (UsersApi_invoke example_runtime (U_get ''u1'')
        (example_state ENVIRONMENT_LEVEL_API_KEY ''a/b'' ''c'')))
     = [''https://api.permit.io/v2/facts/a/b/c/users/u1''] \<and>
   map rq_url (sent (UsersApi_invoke example_runtime (U_get ''u1'')
        (example_state ENVIRONMENT_LEVEL_API_KEY ''a'' ''b/c'')))
     = [''https://api.permit.io/v2/facts/a/b/c/users/u1'']"
  by (simp add: example_defs sent_def UsersApi_get_def UsersApi_get_func_def
        build_http_client_def call_simps)

end
